theory Spec2Isabelle
  imports Complex_Main "HOL-Library.Sublist"
begin

section \<open>Characters and strings\<close>

text \<open>
  Python strings are modelled as \<^typ>\<open>string\<close>. The model is exact on ASCII text. A
  character outside ASCII is carried as the bytes of its UTF-8 encoding; every such byte is
  left unchanged by \<open>upper\<close> and belongs to none of the classes \<open>\d\<close>, \<open>\s\<close>,
  \<open>[A-Z]\<close>, which is what Python does for the emoji the program itself writes.
\<close>

definition is_digit :: "char \<Rightarrow> bool" where
  "is_digit c = (c \<in> set ''0123456789'')"

text \<open>The class \<open>\s\<close> of a Python 3 \<open>str\<close> pattern, on ASCII: codes 9-13, 28-31 and 32.\<close>

definition is_space :: "char \<Rightarrow> bool" where
  "is_space c = (c \<in> set [CHR 0x09, CHR 0x0A, CHR 0x0B, CHR 0x0C, CHR 0x0D,
                             CHR 0x1C, CHR 0x1D, CHR 0x1E, CHR 0x1F, CHR '' ''])"

definition is_AZ :: "char \<Rightarrow> bool" where
  "is_AZ c = (c \<in> set ''ABCDEFGHIJKLMNOPQRSTUVWXYZ'')"

definition upper_char :: "char \<Rightarrow> char" where
  "upper_char c =
     (case map_of (zip ''abcdefghijklmnopqrstuvwxyz'' ''ABCDEFGHIJKLMNOPQRSTUVWXYZ'') c of
        Some u \<Rightarrow> u | None \<Rightarrow> c)"

definition lower_char :: "char \<Rightarrow> char" where
  "lower_char c =
     (case map_of (zip ''ABCDEFGHIJKLMNOPQRSTUVWXYZ'' ''abcdefghijklmnopqrstuvwxyz'') c of
        Some l \<Rightarrow> l | None \<Rightarrow> c)"

definition upper :: "string \<Rightarrow> string" where
  "upper s = map upper_char s"

definition lower :: "string \<Rightarrow> string" where
  "lower s = map lower_char s"

text \<open>Python's \<open>pattern in text\<close> on strings: \<open>pattern\<close> occurs as a contiguous substring.\<close>

fun str_in :: "string \<Rightarrow> string \<Rightarrow> bool" where
  "str_in p [] = (p = [])"
| "str_in p (c # cs) = (prefix p (c # cs) \<or> str_in p cs)"

section \<open>Numbers\<close>

text \<open>
  A price is the exact decimal value of the matched token. Python rounds it to the nearest
  double, which keeps the sign and, for all but tokens below the smallest double, whether
  the value is zero. \<open>float_tok\<close> is \<open>float(s)\<close> on
  the tokens the price pattern can capture (digits, an optional point, digits); on any
  other string it is \<open>None\<close>, the \<open>ValueError\<close> that every caller catches.
\<close>

type_synonym price = rat

definition digit_val :: "char \<Rightarrow> nat" where
  "digit_val c = of_char c - 48"

definition nat_of_digits :: "string \<Rightarrow> nat" where
  "nat_of_digits ds = foldl (\<lambda>a c. 10 * a + digit_val c) 0 ds"

definition float_tok :: "string \<Rightarrow> price option" where
  "float_tok s =
     (let ip = takeWhile is_digit s; r = dropWhile is_digit s in
      if ip = [] then None
      else if r = [] then Some (of_nat (nat_of_digits ip))
      else if hd r = CHR ''.'' \<and> list_all is_digit (tl r)
      then Some (of_nat (nat_of_digits ip) + of_nat (nat_of_digits (tl r)) / 10 ^ length (tl r))
      else None)"

section \<open>Regular-expression matching\<close>

text \<open>
  \<open>re.search\<close> tries the anchored pattern at each position from the left and returns the
  first success. An anchored matcher is a function from the rest of the text to its result.
\<close>

fun re_search :: "(string \<Rightarrow> 'a option) \<Rightarrow> string \<Rightarrow> 'a option" where
  "re_search m [] = m []"
| "re_search m (c # cs) = (case m (c # cs) of Some r \<Rightarrow> Some r | None \<Rightarrow> re_search m cs)"

text \<open>
  \<open>re.findall\<close> collects the groups of the successive non-overlapping matches. The anchored
  matcher returns the group and the text after the match; the scan resumes there (one
  character further when the match consumed nothing).
\<close>

function re_findall :: "(string \<Rightarrow> ('a \<times> string) option) \<Rightarrow> string \<Rightarrow> 'a list" where
  "re_findall m [] = (case m [] of Some (g, r) \<Rightarrow> [g] | None \<Rightarrow> [])"
| "re_findall m (c # cs) =
     (case m (c # cs) of
        Some (g, r) \<Rightarrow> g # (if length r \<le> length cs then re_findall m r else re_findall m cs)
      | None \<Rightarrow> re_findall m cs)"
  by pat_completeness auto
termination
  by (relation "measure (\<lambda>(m, s). length s)") auto

text \<open>
  The price pattern \<open>\d+\.?\d*\<close> anchored at the start of \<open>s\<close>: all the digits there
  (at least one), a point if one follows, and all the digits after it. The three quantifiers
  are greedy and what follows them in the patterns below never makes them give characters
  back, except in the risk-reward pattern, which is modelled on its own.
\<close>

definition price_token :: "string \<Rightarrow> (string \<times> string) option" where
  "price_token s =
     (let d1 = takeWhile is_digit s; r1 = dropWhile is_digit s in
      if d1 = [] then None
      else (case r1 of
              c # r2 \<Rightarrow> if c = CHR ''.''
                        then Some (d1 @ [c] @ takeWhile is_digit r2, dropWhile is_digit r2)
                        else Some (d1, r1)
            | [] \<Rightarrow> Some (d1, r1)))"

text \<open>
  A keyword alternative is a sequence of literals and \<open>\s*\<close>. Each \<open>\s*\<close> is followed
  by a literal that starts with a letter, so taking all the white space is the only way to
  match.
\<close>

datatype atom = Lit string | Spaces

fun match_atoms :: "atom list \<Rightarrow> string \<Rightarrow> string option" where
  "match_atoms [] s = Some s"
| "match_atoms (Lit w # as) s =
     (if prefix w s then match_atoms as (drop (length w) s) else None)"
| "match_atoms (Spaces # as) s = match_atoms as (dropWhile is_space s)"

text \<open>
  \<open>(?:k1|k2|...)\<close> followed by the rest of a pattern, anchored at the start of \<open>s\<close>:
  the alternatives are tried in order, and an alternative whose keyword matches but after
  which the rest \<open>k\<close> of the pattern fails is abandoned for the next one.
\<close>

fun match_alts :: "atom list list \<Rightarrow> (string \<Rightarrow> 'a option) \<Rightarrow> string \<Rightarrow> 'a option" where
  "match_alts [] k s = None"
| "match_alts (alt # alts) k s =
     (case Option.bind (match_atoms alt s) k of
        Some g \<Rightarrow> Some g
      | None \<Rightarrow> match_alts alts k s)"

text \<open>
  \<open>[sep]*(\d+\.?\d*)\<close>: the separator class and the digits are disjoint, so the greedy
  \<open>[sep]*\<close> has one way to match. The result is the group and the text after the match.
\<close>

definition sep_price :: "(char \<Rightarrow> bool) \<Rightarrow> string \<Rightarrow> (string \<times> string) option" where
  "sep_price sep s = price_token (dropWhile sep s)"

text \<open>The classes \<open>[:\s]\<close> and \<open>[:\s@]\<close>.\<close>

definition colon_space :: "char \<Rightarrow> bool" where
  "colon_space c = (c = CHR '':'' \<or> is_space c)"

definition colon_space_at :: "char \<Rightarrow> bool" where
  "colon_space_at c = (c = CHR '':'' \<or> is_space c \<or> c = CHR ''@'')"

section \<open>The parser's tables\<close>

definition forex_pairs :: "string list" where
  "forex_pairs =
     [''EURUSD'', ''GBPUSD'', ''USDJPY'', ''USDCHF'', ''AUDUSD'', ''USDCAD'', ''NZDUSD'',
      ''EURJPY'', ''GBPJPY'', ''EURGBP'', ''EURAUD'', ''EURCHF'', ''GBPAUD'', ''GBPCHF'',
      ''AUDJPY'', ''CADJPY'', ''CHFJPY'', ''AUDCAD'', ''AUDCHF'', ''CADCHF'', ''NZDJPY'',
      ''XAUUSD'', ''XAGUSD'', ''BTCUSD'', ''ETHUSD'', ''LTCUSD'', ''ADAUSD'']"

text \<open>The dictionary keeps its insertion order, which \<open>_extract_direction\<close> iterates.\<close>

definition direction_patterns :: "(string \<times> atom list list) list" where
  "direction_patterns =
     [(''buy'', [[Lit ''BUY''], [Lit ''LONG''], [Lit ''BULLISH''], [Lit ''UP'']]),
      (''sell'', [[Lit ''SELL''], [Lit ''SHORT''], [Lit ''BEARISH''], [Lit ''DOWN'']])]"

definition kw_entry :: "atom list list" where
  "kw_entry = [[Lit ''ENTRY''], [Lit ''ENTER''], [Lit ''PRICE''], [Lit ''@''], [Lit ''AT'']]"

definition kw_stop_loss :: "atom list list" where
  "kw_stop_loss =
     [[Lit ''SL''], [Lit ''STOP'', Spaces, Lit ''LOSS''], [Lit ''STOPLOSS''], [Lit ''STOP'']]"

definition kw_take_profit :: "atom list list" where
  "kw_take_profit =
     [[Lit ''TP''], [Lit ''TAKE'', Spaces, Lit ''PROFIT''], [Lit ''TAKEPROFIT''],
      [Lit ''TARGET''], [Lit ''TGT'']]"

definition kw_risk_reward :: "atom list list" where
  "kw_risk_reward = [[Lit ''RR''], [Lit ''R:R''], [Lit ''RATIO'']]"

section \<open>The signal record\<close>

datatype error = KeyError | IndexError | ZeroDivisionError

record signal =
  instrument :: "string option"
  direction :: "string option"
  entry_price :: "price option"
  stop_loss :: "price option"
  take_profit :: "price list"
  risk_reward :: "string option"
  timeframe :: "string option"
  confidence :: rat
  raw_prices :: "price list"
  is_valid_signal :: bool

text \<open>Python's truth value of an optional string, an optional float and a list.\<close>

definition truthy_str :: "string option \<Rightarrow> bool" where
  "truthy_str x = (case x of None \<Rightarrow> False | Some s \<Rightarrow> s \<noteq> [])"

definition truthy_float :: "price option \<Rightarrow> bool" where
  "truthy_float x = (case x of None \<Rightarrow> False | Some p \<Rightarrow> p \<noteq> 0)"

definition bind_err :: "'e + 'a \<Rightarrow> ('a \<Rightarrow> 'e + 'b) \<Rightarrow> 'e + 'b" where
  "bind_err x f = (case x of Inl e \<Rightarrow> Inl e | Inr a \<Rightarrow> f a)"

section \<open>The extractors\<close>

definition pair_patterns :: "string \<Rightarrow> string list" where
  "pair_patterns pair =
     [pair, take 3 pair @ ''/'' @ drop 3 pair, take 3 pair @ '' '' @ drop 3 pair,
      take 3 pair @ ''-'' @ drop 3 pair]"

text \<open>\<open>([A-Z]{3})[\/\-\s]([A-Z]{3})\<close> anchored at the start of the text.\<close>

fun forex_pattern :: "string \<Rightarrow> string option" where
  "forex_pattern (a # b # c # d # e # f # g # _) =
     (if is_AZ a \<and> is_AZ b \<and> is_AZ c \<and> (d = CHR ''/'' \<or> d = CHR ''-'' \<or> is_space d)
         \<and> is_AZ e \<and> is_AZ f \<and> is_AZ g
      then Some ([a, b, c] @ [e, f, g]) else None)"
| "forex_pattern _ = None"

definition extract_instrument :: "string \<Rightarrow> string option" where
  "extract_instrument text =
     (case find (\<lambda>pair. list_ex (\<lambda>pattern. str_in pattern text) (pair_patterns pair))
             forex_pairs of
        Some pair \<Rightarrow> Some pair
      | None \<Rightarrow> re_search forex_pattern text)"

fun first_direction :: "(string \<times> atom list list) list \<Rightarrow> string \<Rightarrow> string option" where
  "first_direction [] text = None"
| "first_direction ((d, pattern) # rest) text =
     (if re_search (match_alts pattern Some) text \<noteq> None then Some (upper d)
      else first_direction rest text)"

definition extract_direction :: "string \<Rightarrow> string option" where
  "extract_direction text = first_direction direction_patterns text"

text \<open>
  \<open>_extract_entry_price\<close>: the entry keywords first; when they give nothing, the first
  price after the direction word. The lookup of the direction in the dictionary is the one
  place that could raise.
\<close>

definition extract_entry_price :: "string \<Rightarrow> error + price option" where
  "extract_entry_price text =
     (case Option.bind (re_search (match_alts kw_entry (sep_price colon_space)) text)
             (\<lambda>(g, r). float_tok g) of
        Some p \<Rightarrow> Inr (Some p)
      | None \<Rightarrow>
          (case extract_direction text of
             None \<Rightarrow> Inr None
           | Some dir \<Rightarrow>
               if dir = [] then Inr None
               else (case map_of direction_patterns (lower dir) of
                       None \<Rightarrow> Inl KeyError
                     | Some pattern \<Rightarrow>
                         Inr (Option.bind
                                (re_search (match_alts pattern (sep_price colon_space_at)) text)
                                (\<lambda>(g, r). float_tok g)))))"

definition extract_stop_loss :: "string \<Rightarrow> price option" where
  "extract_stop_loss text =
     Option.bind (re_search (match_alts kw_stop_loss (sep_price colon_space)) text)
       (\<lambda>(g, r). float_tok g)"

definition extract_take_profit :: "string \<Rightarrow> price list" where
  "extract_take_profit text =
     List.map_filter float_tok
       (re_findall (match_alts kw_take_profit (sep_price colon_space)) text)"

text \<open>
  The timeframe patterns, anchored: \<open>(\d+)M(?:IN)?\<close> and its like take all the digits,
  the unit letter, and the optional suffix when it follows; \<open>M(\d+)\<close> and its like take
  the letter and all the digits. The result is the whole match, \<open>group(0)\<close>.
\<close>

definition tf_digits_unit :: "string \<Rightarrow> string \<Rightarrow> string \<Rightarrow> string option" where
  "tf_digits_unit unit opt s =
     (let ds = takeWhile is_digit s; r = dropWhile is_digit s in
      if ds = [] \<or> \<not> prefix unit r then None
      else if prefix opt (drop (length unit) r) then Some (ds @ unit @ opt)
      else Some (ds @ unit))"

definition tf_unit_digits :: "string \<Rightarrow> string \<Rightarrow> string option" where
  "tf_unit_digits unit s =
     (let ds = takeWhile is_digit (drop (length unit) s) in
      if prefix unit s \<and> ds \<noteq> [] then Some (unit @ ds) else None)"

definition timeframe_patterns :: "(string \<Rightarrow> string option) list" where
  "timeframe_patterns =
     [tf_digits_unit ''M'' ''IN'', tf_digits_unit ''H'' ''R'', tf_digits_unit ''D'' ''AY'',
      tf_digits_unit ''W'' ''EEK'', tf_unit_digits ''M'', tf_unit_digits ''H'',
      tf_unit_digits ''D'']"

fun first_search :: "(string \<Rightarrow> 'a option) list \<Rightarrow> string \<Rightarrow> 'a option" where
  "first_search [] text = None"
| "first_search (pattern # rest) text =
     (case re_search pattern text of Some g \<Rightarrow> Some g | None \<Rightarrow> first_search rest text)"

definition extract_timeframe :: "string \<Rightarrow> string option" where
  "extract_timeframe text = first_search timeframe_patterns text"

text \<open>
  The explicit risk-reward pattern
  \<open>(?:RR|R:R|RATIO)[:\s]*(\d+\.?\d*)[:\s]*(\d+\.?\d*)\<close> is the one place where the
  first price group gives characters back: the second group needs a digit, so on
  \<open>RR 12\<close> the groups are \<open>1\<close> and \<open>2\<close>. \<open>rr_group1_candidates\<close> lists the ways
  \<open>\d+\.?\d*\<close> can match at the start of \<open>s\<close>, in the order a backtracking matcher
  tries them (each quantifier longest first), each with the text that follows it.
\<close>

definition rr_group1_candidates :: "string \<Rightarrow> (string \<times> string) list" where
  "rr_group1_candidates s =
     (let d = takeWhile is_digit s; r = dropWhile is_digit s; n = length d in
      if d = [] then []
      else
        (case r of
           c # r' \<Rightarrow>
             if c = CHR ''.''
             then (let d2 = takeWhile is_digit r'; r2 = dropWhile is_digit r' in
                   map (\<lambda>j. (d @ [c] @ take j d2, drop j d2 @ r2)) (rev [0..<Suc (length d2)]))
             else []
         | [] \<Rightarrow> [])
        @ [(d, r)]
        @ concat (map (\<lambda>k. map (\<lambda>j. (take (k + j) d, drop (k + j) d @ r))
                               (rev [0..<Suc (n - k)]))
                      (rev [1..<n])))"

definition rr_groups :: "string \<Rightarrow> (string \<times> string) option" where
  "rr_groups s =
     (case find (\<lambda>(g1, r). sep_price colon_space r \<noteq> None)
             (rr_group1_candidates (dropWhile colon_space s)) of
        None \<Rightarrow> None
      | Some (g1, r) \<Rightarrow> map_option (\<lambda>(g2, r2). (g1, g2)) (sep_price colon_space r))"

section \<open>Rendering numbers\<close>

text \<open>
  \<open>show_nat\<close> is the decimal numeral of a natural number. \<open>format_1f\<close> and
  \<open>str_float\<close> are the format \<open>:.1f\<close> and \<open>str\<close> of the exact arithmetic on
  non-negative decimal values: positional notation, with at least one and at most 17 digits
  after the point. They are Python's on the doubles that it prints in this way, such as 1,
  1.5 and 2, and not beyond: Python prints the digits of the double, an exponent outside the
  range from \<open>1e-4\<close> to \<open>1e16\<close>, and \<open>inf\<close> and \<open>nan\<close>. No property of the summary
  below rests on them: the summary is written over the float operations of the platform.
\<close>

definition digit_char :: "nat \<Rightarrow> char" where
  "digit_char d = ''0123456789'' ! (d mod 10)"

fun show_nat :: "nat \<Rightarrow> string" where
  "show_nat n = (if n < 10 then [digit_char n] else show_nat (n div 10) @ [digit_char n])"

definition format_1f :: "rat \<Rightarrow> string" where
  "format_1f r =
     (let t = 10 * r; q = \<lfloor>t\<rfloor>; f = t - of_int q;
          u = nat (if f < 1 / 2 then q else if 1 / 2 < f then q + 1
                   else if even q then q else q + 1)
      in show_nat (u div 10) @ ''.'' @ [digit_char u])"

fun frac_digits :: "nat \<Rightarrow> rat \<Rightarrow> string" where
  "frac_digits 0 r = []"
| "frac_digits (Suc n) r =
     (if r = 0 then []
      else digit_char (nat \<lfloor>10 * r\<rfloor>) # frac_digits n (10 * r - of_int \<lfloor>10 * r\<rfloor>))"

definition str_float :: "rat \<Rightarrow> string" where
  "str_float r =
     (let ds = frac_digits 17 (r - of_int \<lfloor>r\<rfloor>) in
      show_nat (nat \<lfloor>r\<rfloor>) @ ''.'' @ (if ds = [] then ''0'' else ds))"

section \<open>Risk-reward, confidence and the signal\<close>

definition calculate_risk_reward :: "string \<Rightarrow> error + string option" where
  "calculate_risk_reward text =
     (case re_search (match_alts kw_risk_reward rr_groups) text of
        Some (g1, g2) \<Rightarrow> Inr (Some (g1 @ '':'' @ g2))
      | None \<Rightarrow>
          bind_err (extract_entry_price text) (\<lambda>entry.
            let sl = extract_stop_loss text; take_profits = extract_take_profit text in
            if truthy_float entry \<and> truthy_float sl \<and> take_profits \<noteq> []
            then (case take_profits of
                    [] \<Rightarrow> Inl IndexError
                  | tp0 # _ \<Rightarrow>
                      (let risk = \<bar>the entry - the sl\<bar>; reward = \<bar>tp0 - the entry\<bar> in
                       if 0 < risk
                       then (if risk = 0 then Inl ZeroDivisionError
                             else Inr (Some (''1:'' @ format_1f (reward / risk))))
                       else Inr None))
            else Inr None))"

text \<open>\<open>_extract_all_prices\<close> scans the text as given, not its upper-case form.\<close>

definition extract_all_prices :: "string \<Rightarrow> price list" where
  "extract_all_prices text =
     filter (\<lambda>p. 1 / 100 \<le> p \<and> p \<le> 100000)
       (List.map_filter float_tok (re_findall price_token text))"

text \<open>
  The score is a Python float; it is modelled by the exact sum. The doubles
  \<open>0.2 + ... + 0.2\<close> of one to five terms are the doubles \<open>0.2 * n\<close>, and
  \<open>0.2 + 0.2\<close> is the double \<open>0.4\<close>, so the comparisons below agree with Python's.
\<close>

definition calculate_confidence :: "string \<Rightarrow> error + rat" where
  "calculate_confidence text =
     bind_err (extract_entry_price text) (\<lambda>entry.
       let score = 0;
           score = (if truthy_str (extract_instrument text) then score + 1 / 5 else score);
           score = (if truthy_str (extract_direction text) then score + 1 / 5 else score);
           score = (if truthy_float entry then score + 1 / 5 else score);
           score = (if truthy_float (extract_stop_loss text) then score + 1 / 5 else score);
           score = (if extract_take_profit text \<noteq> [] then score + 1 / 5 else score)
       in Inr score)"

definition validate_signal :: "signal \<Rightarrow> bool" where
  "validate_signal sig =
     (if \<not> truthy_str (instrument sig) then False
      else if \<not> truthy_str (direction sig) then False
      else (let has_price = (truthy_float (entry_price sig) \<or> truthy_float (stop_loss sig)
                              \<or> take_profit sig \<noteq> [])
            in has_price \<and> 2 / 5 \<le> confidence sig))"

definition extract_trading_signal :: "string \<Rightarrow> error + signal" where
  "extract_trading_signal text =
     (let text_upper = upper text in
      bind_err (extract_entry_price text_upper) (\<lambda>entry.
      bind_err (calculate_risk_reward text_upper) (\<lambda>rr.
      bind_err (calculate_confidence text_upper) (\<lambda>conf.
        let sig = \<lparr>instrument = extract_instrument text_upper,
                   direction = extract_direction text_upper,
                   entry_price = entry,
                   stop_loss = extract_stop_loss text_upper,
                   take_profit = extract_take_profit text_upper,
                   risk_reward = rr,
                   timeframe = extract_timeframe text_upper,
                   confidence = conf,
                   raw_prices = extract_all_prices text,
                   is_valid_signal = False\<rparr>
        in Inr (sig\<lparr>is_valid_signal := validate_signal sig\<rparr>)))))"

definition trading_words :: "string list" where
  "trading_words =
     [''BUY'', ''SELL'', ''LONG'', ''SHORT'', ''ENTRY'', ''EXIT'', ''STOP'', ''TARGET'',
      ''PROFIT'', ''LOSS'', ''PIPS'', ''TRADE'', ''SIGNAL'', ''ANALYSIS'', ''CHART'',
      ''SUPPORT'', ''RESISTANCE'', ''TREND'', ''BREAKOUT'', ''REVERSAL'']"

definition is_forex_related :: "string \<Rightarrow> bool" where
  "is_forex_related text =
     (let text_upper = upper text in
      if truthy_str (extract_instrument text_upper) then True
      else list_ex (\<lambda>word. str_in word text_upper) trading_words)"

section \<open>The parser over the floats of the platform\<close>

text \<open>
  What the summary of a signal looks like depends on how Python rounds a token to a double,
  on the arithmetic of doubles and on how doubles are printed (\<open>2.345e-05\<close>, \<open>inf\<close>,
  \<open>nan\<close>). These operations belong to the platform, not to the program, so here the parser
  is written with them left open. A value of type \<open>'f floats\<close> gives, for a type \<open>'f\<close>
  of floats: \<open>float(s)\<close>, with \<open>None\<close> for the \<open>ValueError\<close>; the truth value of a
  float, which is that it is not zero; subtraction, absolute value, the test \<open>x > 0\<close> and
  division; the test \<open>0.01 <= x <= 100000\<close>; \<open>str(x)\<close>; and the format \<open>:.1f\<close>.
  The functions below are the functions of the parser, line by line as before, over these
  operations. The confidence stays the exact sum, as before.
\<close>

record 'f floats =
  float_of :: "string \<Rightarrow> 'f option"
  truthy :: "'f \<Rightarrow> bool"
  fsub :: "'f \<Rightarrow> 'f \<Rightarrow> 'f"
  fabs :: "'f \<Rightarrow> 'f"
  fpos :: "'f \<Rightarrow> bool"
  fdiv :: "'f \<Rightarrow> 'f \<Rightarrow> 'f"
  plausible :: "'f \<Rightarrow> bool"
  fstr :: "'f \<Rightarrow> string"
  fmt1 :: "'f \<Rightarrow> string"

record 'f py_signal =
  sig_instrument :: "string option"
  sig_direction :: "string option"
  sig_entry_price :: "'f option"
  sig_stop_loss :: "'f option"
  sig_take_profit :: "'f list"
  sig_risk_reward :: "string option"
  sig_timeframe :: "string option"
  sig_confidence :: rat
  sig_raw_prices :: "'f list"
  sig_is_valid_signal :: bool

definition truthy_opt :: "'f floats \<Rightarrow> 'f option \<Rightarrow> bool" where
  "truthy_opt F x = (case x of None \<Rightarrow> False | Some p \<Rightarrow> truthy F p)"

definition extract_entry_price_f :: "'f floats \<Rightarrow> string \<Rightarrow> error + 'f option" where
  "extract_entry_price_f F text =
     (case Option.bind (re_search (match_alts kw_entry (sep_price colon_space)) text)
             (\<lambda>(g, r). float_of F g) of
        Some p \<Rightarrow> Inr (Some p)
      | None \<Rightarrow>
          (case extract_direction text of
             None \<Rightarrow> Inr None
           | Some dir \<Rightarrow>
               if dir = [] then Inr None
               else (case map_of direction_patterns (lower dir) of
                       None \<Rightarrow> Inl KeyError
                     | Some pattern \<Rightarrow>
                         Inr (Option.bind
                                (re_search (match_alts pattern (sep_price colon_space_at)) text)
                                (\<lambda>(g, r). float_of F g)))))"

definition extract_stop_loss_f :: "'f floats \<Rightarrow> string \<Rightarrow> 'f option" where
  "extract_stop_loss_f F text =
     Option.bind (re_search (match_alts kw_stop_loss (sep_price colon_space)) text)
       (\<lambda>(g, r). float_of F g)"

definition extract_take_profit_f :: "'f floats \<Rightarrow> string \<Rightarrow> 'f list" where
  "extract_take_profit_f F text =
     List.map_filter (float_of F)
       (re_findall (match_alts kw_take_profit (sep_price colon_space)) text)"

definition calculate_risk_reward_f :: "'f floats \<Rightarrow> string \<Rightarrow> error + string option" where
  "calculate_risk_reward_f F text =
     (case re_search (match_alts kw_risk_reward rr_groups) text of
        Some (g1, g2) \<Rightarrow> Inr (Some (g1 @ '':'' @ g2))
      | None \<Rightarrow>
          bind_err (extract_entry_price_f F text) (\<lambda>entry.
            let sl = extract_stop_loss_f F text; take_profits = extract_take_profit_f F text in
            if truthy_opt F entry \<and> truthy_opt F sl \<and> take_profits \<noteq> []
            then (case take_profits of
                    [] \<Rightarrow> Inl IndexError
                  | tp0 # _ \<Rightarrow>
                      (let risk = fabs F (fsub F (the entry) (the sl));
                           reward = fabs F (fsub F tp0 (the entry)) in
                       if fpos F risk
                       then (if \<not> truthy F risk then Inl ZeroDivisionError
                             else Inr (Some (''1:'' @ fmt1 F (fdiv F reward risk))))
                       else Inr None))
            else Inr None))"

definition extract_all_prices_f :: "'f floats \<Rightarrow> string \<Rightarrow> 'f list" where
  "extract_all_prices_f F text =
     filter (plausible F) (List.map_filter (float_of F) (re_findall price_token text))"

definition calculate_confidence_f :: "'f floats \<Rightarrow> string \<Rightarrow> error + rat" where
  "calculate_confidence_f F text =
     bind_err (extract_entry_price_f F text) (\<lambda>entry.
       let score = 0;
           score = (if truthy_str (extract_instrument text) then score + 1 / 5 else score);
           score = (if truthy_str (extract_direction text) then score + 1 / 5 else score);
           score = (if truthy_opt F entry then score + 1 / 5 else score);
           score = (if truthy_opt F (extract_stop_loss_f F text) then score + 1 / 5
                    else score);
           score = (if extract_take_profit_f F text \<noteq> [] then score + 1 / 5 else score)
       in Inr score)"

definition validate_signal_f :: "'f floats \<Rightarrow> 'f py_signal \<Rightarrow> bool" where
  "validate_signal_f F sig =
     (if \<not> truthy_str (sig_instrument sig) then False
      else if \<not> truthy_str (sig_direction sig) then False
      else (let has_price = (truthy_opt F (sig_entry_price sig)
                              \<or> truthy_opt F (sig_stop_loss sig)
                              \<or> sig_take_profit sig \<noteq> [])
            in has_price \<and> 2 / 5 \<le> sig_confidence sig))"

definition extract_trading_signal_f :: "'f floats \<Rightarrow> string \<Rightarrow> error + 'f py_signal" where
  "extract_trading_signal_f F text =
     (let text_upper = upper text in
      bind_err (extract_entry_price_f F text_upper) (\<lambda>entry.
      bind_err (calculate_risk_reward_f F text_upper) (\<lambda>rr.
      bind_err (calculate_confidence_f F text_upper) (\<lambda>conf.
        let sig = \<lparr>sig_instrument = extract_instrument text_upper,
                   sig_direction = extract_direction text_upper,
                   sig_entry_price = entry,
                   sig_stop_loss = extract_stop_loss_f F text_upper,
                   sig_take_profit = extract_take_profit_f F text_upper,
                   sig_risk_reward = rr,
                   sig_timeframe = extract_timeframe text_upper,
                   sig_confidence = conf,
                   sig_raw_prices = extract_all_prices_f F text,
                   sig_is_valid_signal = False\<rparr>
        in Inr (sig\<lparr>sig_is_valid_signal := validate_signal_f F sig\<rparr>)))))"

text \<open>
  The exact arithmetic of the sections above is one such arithmetic. It is Python's on the
  values that are doubles and are printed positionally, such as 1, 1.5 and 2.
\<close>

definition exact_floats :: "rat floats" where
  "exact_floats =
     \<lparr>float_of = float_tok, truthy = (\<lambda>x. x \<noteq> 0), fsub = (\<lambda>x y. x - y), fabs = abs,
      fpos = (\<lambda>x. 0 < x), fdiv = (\<lambda>x y. x / y),
      plausible = (\<lambda>p. 1 / 100 \<le> p \<and> p \<le> 100000), fstr = str_float, fmt1 = format_1f\<rparr>"

text \<open>A record of the exact parser, as a record over the exact arithmetic.\<close>

definition to_py :: "signal \<Rightarrow> rat py_signal" where
  "to_py sig =
     \<lparr>sig_instrument = instrument sig, sig_direction = direction sig,
      sig_entry_price = entry_price sig, sig_stop_loss = stop_loss sig,
      sig_take_profit = take_profit sig, sig_risk_reward = risk_reward sig,
      sig_timeframe = timeframe sig, sig_confidence = confidence sig,
      sig_raw_prices = raw_prices sig, sig_is_valid_signal = is_valid_signal sig\<rparr>"

section \<open>The summary\<close>

text \<open>The emoji of the source, as the bytes of their UTF-8 encoding.\<close>

definition emoji_cross :: string where
  "emoji_cross = [CHR 0xE2, CHR 0x9D, CHR 0x8C]"

definition emoji_chart_up :: string where
  "emoji_chart_up = [CHR 0xF0, CHR 0x9F, CHR 0x93, CHR 0x88]"

definition emoji_money :: string where
  "emoji_money = [CHR 0xF0, CHR 0x9F, CHR 0x92, CHR 0xB0]"

definition emoji_stop :: string where
  "emoji_stop = [CHR 0xF0, CHR 0x9F, CHR 0x9B, CHR 0x91]"

definition emoji_target :: string where
  "emoji_target = [CHR 0xF0, CHR 0x9F, CHR 0x8E, CHR 0xAF]"

definition emoji_bars :: string where
  "emoji_bars = [CHR 0xF0, CHR 0x9F, CHR 0x93, CHR 0x8A]"

definition emoji_clock :: string where
  "emoji_clock = [CHR 0xE2, CHR 0x8F, CHR 0xB0]"

definition newline :: string where
  "newline = [CHR 0x0A]"

text \<open>An optional string inside an f-string: \<open>None\<close> prints as the word.\<close>

definition str_opt :: "string option \<Rightarrow> string" where
  "str_opt x = (case x of None \<Rightarrow> ''None'' | Some s \<Rightarrow> s)"

text \<open>\<open>", ".join(...)\<close>.\<close>

fun join_comma :: "string list \<Rightarrow> string" where
  "join_comma [] = []"
| "join_comma [x] = x"
| "join_comma (x # y # ys) = x @ '', '' @ join_comma (y # ys)"

text \<open>
  \<open>format_signal_summary\<close>. The prices are tested by truth value and printed by \<open>str\<close>.
  The percentage is \<open>int(confidence * 100)\<close>: on the six values the confidence takes, the
  doubles give 0, 20, 40, 60, 80 and 100, as the exact product does.
\<close>

definition format_signal_summary :: "'f floats \<Rightarrow> 'f py_signal \<Rightarrow> string" where
  "format_signal_summary F sig =
     (if \<not> sig_is_valid_signal sig
      then emoji_cross @ '' Invalid or incomplete trading signal''
      else
        (let summary = emoji_chart_up @ '' **'' @ str_opt (sig_instrument sig) @ ''** ''
                         @ str_opt (sig_direction sig);
             summary = (if truthy_opt F (sig_entry_price sig)
                        then summary @ newline @ emoji_money @ '' Entry: ''
                               @ fstr F (the (sig_entry_price sig))
                        else summary);
             summary = (if truthy_opt F (sig_stop_loss sig)
                        then summary @ newline @ emoji_stop @ '' Stop Loss: ''
                               @ fstr F (the (sig_stop_loss sig))
                        else summary);
             summary = (if sig_take_profit sig \<noteq> []
                        then (if length (sig_take_profit sig) = 1
                              then summary @ newline @ emoji_target @ '' Take Profit: ''
                                     @ fstr F (hd (sig_take_profit sig))
                              else summary @ newline @ emoji_target @ '' Take Profits: ''
                                     @ join_comma (map (fstr F) (sig_take_profit sig)))
                        else summary);
             summary = (if truthy_str (sig_risk_reward sig)
                        then summary @ newline @ emoji_bars @ '' Risk/Reward: ''
                               @ str_opt (sig_risk_reward sig)
                        else summary);
             summary = (if truthy_str (sig_timeframe sig)
                        then summary @ newline @ emoji_clock @ '' Timeframe: ''
                               @ str_opt (sig_timeframe sig)
                        else summary)
         in summary @ newline @ emoji_target @ '' Confidence: ''
              @ show_nat (nat \<lfloor>sig_confidence sig * 100\<rfloor>) @ ''%''))"

section \<open>Escalation\<close>

text \<open>
  The message data is a dictionary; its values are modelled by their text. A delivery
  attempt is answered by the transport: it is accepted, it is refused (a status other than
  200, or an empty response), or the call raises. The answers are given by an environment,
  one per loop index. A follow-up job is modelled by the sequence of things it does: the
  sleeps, the delivery attempts and the log lines. The task runs detached; its scheduling and
  real time are outside the model.
\<close>

type_synonym metadata = "string \<rightharpoonup> string"

datatype outcome = Sent | Failed | Raised

datatype event =
    Sleep nat
  | Deliver string metadata
  | LogSent nat
  | LogFailed nat
  | LogAttemptError nat
  | LogJobError

definition emoji_siren :: string where
  "emoji_siren = [CHR 0xF0, CHR 0x9F, CHR 0x9A, CHR 0xA8]"

definition emoji_speaker :: string where
  "emoji_speaker = [CHR 0xF0, CHR 0x9F, CHR 0x94, CHR 0x8A]"

definition emoji_warning :: string where
  "emoji_warning = [CHR 0xE2, CHR 0x9A, CHR 0xA0, CHR 0xEF, CHR 0xB8, CHR 0x8F]"

definition emoji_red :: string where
  "emoji_red = [CHR 0xF0, CHR 0x9F, CHR 0x94, CHR 0xB4]"

definition urgency_levels :: "string list" where
  "urgency_levels =
     [emoji_siren @ '' URGENT FOREX ALERT '' @ emoji_siren,
      emoji_speaker @ '' CRITICAL TRADE SIGNAL '' @ emoji_speaker,
      emoji_warning @ '' IMMEDIATE ACTION REQUIRED '' @ emoji_warning,
      emoji_siren @ '' FOREX SIGNAL WAITING '' @ emoji_siren]"

text \<open>\<open>message_data.get('id', 'unknown')\<close>.\<close>

definition base_id :: "metadata \<Rightarrow> string" where
  "base_id message_data = (case message_data ''id'' of None \<Rightarrow> ''unknown'' | Some v \<Rightarrow> v)"

subsection \<open>The voice transport (\<open>fcm_notifier.py\<close>)\<close>

definition voice_follow_up_message :: "string \<Rightarrow> nat \<Rightarrow> string" where
  "voice_follow_up_message formatted_message i =
     urgency_levels ! (i mod length urgency_levels) @ newline @ newline @ formatted_message"

definition voice_follow_up_data :: "metadata \<Rightarrow> nat \<Rightarrow> metadata" where
  "voice_follow_up_data message_data i =
     message_data(''id'' \<mapsto> base_id message_data @ ''_voice_followup_'' @ show_nat (i + 1))"

text \<open>
  The loop body of \<open>_send_voice_persistent_notifications\<close>. The one \<open>try\<close> is around the
  whole loop: an attempt that raises ends the job in the handler.
\<close>

fun voice_loop :: "(nat \<Rightarrow> outcome) \<Rightarrow> string \<Rightarrow> metadata \<Rightarrow> nat list \<Rightarrow> event list" where
  "voice_loop env formatted_message message_data [] = []"
| "voice_loop env formatted_message message_data (i # is) =
     Sleep 3 # Deliver (voice_follow_up_message formatted_message i)
                       (voice_follow_up_data message_data i) #
     (case env i of
        Sent \<Rightarrow> LogSent (i + 1) # voice_loop env formatted_message message_data is
      | Failed \<Rightarrow> LogFailed (i + 1) # voice_loop env formatted_message message_data is
      | Raised \<Rightarrow> [LogJobError])"

definition send_voice_persistent_notifications ::
  "int \<Rightarrow> (nat \<Rightarrow> outcome) \<Rightarrow> string \<Rightarrow> metadata \<Rightarrow> event list" where
  "send_voice_persistent_notifications duration env formatted_message message_data =
     (let follow_ups = min (duration div 3) 8
      in voice_loop env formatted_message message_data [0..<nat follow_ups])"

subsection \<open>The plain transport (\<open>fcm_v1_notifier.py\<close>)\<close>

definition follow_up_message :: "string \<Rightarrow> string" where
  "follow_up_message formatted_message = emoji_red @ '' URGENT: '' @ formatted_message"

definition follow_up_data :: "metadata \<Rightarrow> nat \<Rightarrow> metadata" where
  "follow_up_data message_data i =
     message_data(''id'' \<mapsto> base_id message_data @ ''_followup_'' @ show_nat (i + 1))"

text \<open>
  The loop body of \<open>_send_persistent_notifications\<close>. Each attempt has its own \<open>try\<close>:
  an attempt that raises is logged and the loop goes on.
\<close>

fun plain_loop :: "(nat \<Rightarrow> outcome) \<Rightarrow> string \<Rightarrow> metadata \<Rightarrow> nat list \<Rightarrow> event list" where
  "plain_loop env formatted_message message_data [] = []"
| "plain_loop env formatted_message message_data (i # is) =
     Sleep 5 # Deliver (follow_up_message formatted_message) (follow_up_data message_data i) #
     (case env i of
        Sent \<Rightarrow> LogSent (i + 1)
      | Failed \<Rightarrow> LogFailed (i + 1)
      | Raised \<Rightarrow> LogAttemptError (i + 1)) #
     plain_loop env formatted_message message_data is"

definition send_persistent_notifications ::
  "int \<Rightarrow> (nat \<Rightarrow> outcome) \<Rightarrow> string \<Rightarrow> metadata \<Rightarrow> event list" where
  "send_persistent_notifications duration env formatted_message message_data =
     (let follow_ups = min (duration div 5) 6
      in plain_loop env formatted_message message_data [0..<nat follow_ups])"

subsection \<open>The initial delivery\<close>

text \<open>
  \<open>send_notification\<close> of each transport: the result it returns, and the events of the
  follow-up job it starts, if any. \<open>configured\<close> stands for the checks of keys, tokens and
  initialisation at the top of the function; \<open>initial\<close> is the transport's answer to the
  first delivery.
\<close>

record notifier =
  duration :: int
  test_mode :: bool
  configured :: bool




text \<open>The delivery attempts of a job, in order.\<close>

fun deliveries :: "event list \<Rightarrow> (string \<times> metadata) list" where
  "deliveries [] = []"
| "deliveries (Deliver m d # es) = (m, d) # deliveries es"
| "deliveries (_ # es) = deliveries es"

section \<open>Notions used by the properties\<close>

text \<open>
  \<open>present_count\<close> counts the five fields of a record that are present, as the
  specification words it. \<open>truthy_count\<close> counts them the way the parser tests them: a
  price that is zero does not count.
\<close>

definition present_count :: "signal \<Rightarrow> nat" where
  "present_count sig =
     of_bool (instrument sig \<noteq> None) + of_bool (direction sig \<noteq> None)
     + of_bool (entry_price sig \<noteq> None) + of_bool (stop_loss sig \<noteq> None)
     + of_bool (take_profit sig \<noteq> [])"

definition truthy_count :: "signal \<Rightarrow> nat" where
  "truthy_count sig =
     of_bool (instrument sig \<noteq> None) + of_bool (direction sig \<noteq> None)
     + of_bool (truthy_float (entry_price sig)) + of_bool (truthy_float (stop_loss sig))
     + of_bool (take_profit sig \<noteq> [])"

text \<open>The records of some example messages.\<close>

definition signal_empty :: signal where
  "signal_empty =
     \<lparr>instrument = None, direction = None, entry_price = None, stop_loss = None,
      take_profit = [], risk_reward = None, timeframe = None, confidence = 0,
      raw_prices = [], is_valid_signal = False\<rparr>"

definition signal_eurusd :: signal where
  "signal_eurusd =
     \<lparr>instrument = Some ''EURUSD'', direction = Some ''BUY'', entry_price = Some (3 / 2),
      stop_loss = Some 1, take_profit = [2], risk_reward = Some ''1:1.0'',
      timeframe = None, confidence = 1, raw_prices = [3 / 2, 1, 2],
      is_valid_signal = True\<rparr>"

definition signal_entry_zero :: signal where
  "signal_entry_zero =
     \<lparr>instrument = None, direction = None, entry_price = Some 0, stop_loss = None,
      take_profit = [], risk_reward = None, timeframe = None, confidence = 0,
      raw_prices = [], is_valid_signal = False\<rparr>"

text \<open>
  \<open>spec_valid\<close> is the validity rule in the specification's words: a field counts when
  it is present.
\<close>

definition spec_valid :: "signal \<Rightarrow> bool" where
  "spec_valid sig =
     (instrument sig \<noteq> None \<and> direction sig \<noteq> None
      \<and> (entry_price sig \<noteq> None \<or> stop_loss sig \<noteq> None \<or> take_profit sig \<noteq> [])
      \<and> 2 / 5 \<le> confidence sig)"

text \<open>A populated entry price or stop loss is positive, and the same with zero allowed.\<close>

definition prices_positive :: "signal \<Rightarrow> bool" where
  "prices_positive sig =
     ((case entry_price sig of None \<Rightarrow> True | Some p \<Rightarrow> 0 < p)
      \<and> (case stop_loss sig of None \<Rightarrow> True | Some p \<Rightarrow> 0 < p))"

definition prices_nonneg :: "signal \<Rightarrow> bool" where
  "prices_nonneg sig =
     ((case entry_price sig of None \<Rightarrow> True | Some p \<Rightarrow> 0 \<le> p)
      \<and> (case stop_loss sig of None \<Rightarrow> True | Some p \<Rightarrow> 0 \<le> p))"

definition signal_eurusd_entry_zero :: signal where
  "signal_eurusd_entry_zero =
     \<lparr>instrument = Some ''EURUSD'', direction = Some ''BUY'', entry_price = Some 0,
      stop_loss = None, take_profit = [], risk_reward = None, timeframe = None,
      confidence = 2 / 5, raw_prices = [], is_valid_signal = False\<rparr>"

definition signal_zero_prices :: signal where
  "signal_zero_prices =
     \<lparr>instrument = None, direction = None, entry_price = Some 0, stop_loss = Some 0,
      take_profit = [], risk_reward = None, timeframe = None, confidence = 0,
      raw_prices = [], is_valid_signal = False\<rparr>"

text \<open>
  Environments, a notifier and a base metadata for the examples; the texts and the ids of
  the delivery attempts of a job; the sleep that precedes each delivery attempt; and the id
  of follow-up \<open>n\<close> in the specification's words.
\<close>

definition always_sent :: "nat \<Rightarrow> outcome" where
  "always_sent i = Sent"

definition raises_first :: "nat \<Rightarrow> outcome" where
  "raises_first i = (if i = 0 then Raised else Sent)"

definition delivered_texts :: "event list \<Rightarrow> string list" where
  "delivered_texts es = map fst (deliveries es)"

definition delivered_ids :: "event list \<Rightarrow> string option list" where
  "delivered_ids es = map (\<lambda>(m, d). d ''id'') (deliveries es)"

fun gaps :: "nat \<Rightarrow> event list \<Rightarrow> nat list" where
  "gaps acc [] = []"
| "gaps acc (Sleep n # es) = gaps (acc + n) es"
| "gaps acc (Deliver m d # es) = acc # gaps 0 es"
| "gaps acc (_ # es) = gaps acc es"

definition spec_follow_up_id :: "string \<Rightarrow> nat \<Rightarrow> string" where
  "spec_follow_up_id b n = b @ ''_followup_'' @ show_nat n"


definition md42 :: metadata where
  "md42 = [''id'' \<mapsto> ''42'', ''source'' \<mapsto> ''telegram'']"

text \<open>
  Vocabulary for the round trip through the summary. A text is free of a list of words when
  none of them occurs in it; the words are non-empty and made of capital letters. A text
  opens (closes) plainly when it is empty or its first (last) character is not a capital
  letter. A numeric text has only digits and the punctuation of rendered numbers.
\<close>

definition free :: "string list \<Rightarrow> string \<Rightarrow> bool" where
  "free ws s = list_all (\<lambda>w. \<not> str_in w s) ws"

definition words_ok :: "string list \<Rightarrow> bool" where
  "words_ok ws = list_all (\<lambda>w. w \<noteq> [] \<and> list_all is_AZ w) ws"

definition opens_plain :: "string \<Rightarrow> bool" where
  "opens_plain s = (case s of [] \<Rightarrow> True | c # _ \<Rightarrow> \<not> is_AZ c)"

definition closes_plain :: "string \<Rightarrow> bool" where
  "closes_plain s = (s = [] \<or> \<not> is_AZ (last s))"

definition numeric_char :: "char \<Rightarrow> bool" where
  "numeric_char c = (c \<in> set ''0123456789.:, %'')"

definition numeric :: "string \<Rightarrow> bool" where
  "numeric s = list_all numeric_char s"

text \<open>
  The unit words of a timeframe, the six three-letter halves of the catalogued pairs, the
  words of the buy pattern, and the words that the lines of a summary must not contain.
\<close>

definition tf_words :: "string list" where
  "tf_words = [''M'', ''MIN'', ''H'', ''HR'', ''D'', ''DAY'', ''W'', ''WEEK'']"

definition currency_codes :: "string list" where
  "currency_codes = map (take 3) forex_pairs @ map (drop 3) forex_pairs"

definition buy_words :: "string list" where
  "buy_words = [''BUY'', ''LONG'', ''BULLISH'', ''UP'']"

definition forbidden :: "string list" where
  "forbidden = currency_codes @ buy_words"

text \<open>
  The characters of Python's float notation (digits, the point, the exponent with its sign,
  \<open>inf\<close> and \<open>nan\<close>), the characters a line of the summary can have after its
  label, and the latter in upper case.
\<close>

definition float_char :: "char \<Rightarrow> bool" where
  "float_char c = (c \<in> set ''0123456789.e+-infa'')"

definition float_text :: "string \<Rightarrow> bool" where
  "float_text s = list_all float_char s"

definition body_char :: "char \<Rightarrow> bool" where
  "body_char c = (c \<in> set ''0123456789.e+-infa:, %'')"

definition body_text :: "string \<Rightarrow> bool" where
  "body_text s = list_all body_char s"

definition shout_char :: "char \<Rightarrow> bool" where
  "shout_char c = (c \<in> set ''0123456789.E+-INFA:, %'')"

text \<open>
  The summary of a valid signal, cut into its first line and the lines after it, and the
  fixed labels those lines start with.
\<close>

definition summary_head :: "'f py_signal \<Rightarrow> string" where
  "summary_head sig =
     emoji_chart_up @ '' **'' @ str_opt (sig_instrument sig) @ ''** ''
       @ str_opt (sig_direction sig)"

definition entry_line :: "'f floats \<Rightarrow> 'f py_signal \<Rightarrow> string" where
  "entry_line F sig =
     (if truthy_opt F (sig_entry_price sig)
      then (newline @ emoji_money @ '' Entry: '') @ fstr F (the (sig_entry_price sig))
      else [])"

definition stop_line :: "'f floats \<Rightarrow> 'f py_signal \<Rightarrow> string" where
  "stop_line F sig =
     (if truthy_opt F (sig_stop_loss sig)
      then (newline @ emoji_stop @ '' Stop Loss: '') @ fstr F (the (sig_stop_loss sig))
      else [])"

definition target_line :: "'f floats \<Rightarrow> 'f py_signal \<Rightarrow> string" where
  "target_line F sig =
     (if sig_take_profit sig \<noteq> []
      then (if length (sig_take_profit sig) = 1
            then (newline @ emoji_target @ '' Take Profit: '')
                   @ fstr F (hd (sig_take_profit sig))
            else (newline @ emoji_target @ '' Take Profits: '')
                   @ join_comma (map (fstr F) (sig_take_profit sig)))
      else [])"

definition ratio_line :: "'f py_signal \<Rightarrow> string" where
  "ratio_line sig =
     (if truthy_str (sig_risk_reward sig)
      then (newline @ emoji_bars @ '' Risk/Reward: '') @ str_opt (sig_risk_reward sig)
      else [])"

definition frame_line :: "'f py_signal \<Rightarrow> string" where
  "frame_line sig =
     (if truthy_str (sig_timeframe sig)
      then (newline @ emoji_clock @ '' Timeframe: '') @ str_opt (sig_timeframe sig)
      else [])"

definition confidence_line :: "'f py_signal \<Rightarrow> string" where
  "confidence_line sig =
     (newline @ emoji_target @ '' Confidence: '')
       @ (show_nat (nat \<lfloor>sig_confidence sig * 100\<rfloor>) @ ''%'')"

definition summary_lines :: "'f floats \<Rightarrow> 'f py_signal \<Rightarrow> string" where
  "summary_lines F sig =
     entry_line F sig @ stop_line F sig @ target_line F sig @ ratio_line sig @ frame_line sig
       @ confidence_line sig"

definition labels :: "string list" where
  "labels =
     [newline @ emoji_money @ '' Entry: '', newline @ emoji_stop @ '' Stop Loss: '',
      newline @ emoji_target @ '' Take Profit: '', newline @ emoji_target @ '' Take Profits: '',
      newline @ emoji_bars @ '' Risk/Reward: '', newline @ emoji_clock @ '' Timeframe: '',
      newline @ emoji_target @ '' Confidence: '']"

definition quiet :: "string \<Rightarrow> bool" where
  "quiet s = (free forbidden s \<and> opens_plain s)"

definition head_open :: string where
  "head_open = emoji_chart_up @ '' **''"

text \<open>
  The records of three example messages in the exact arithmetic. Their prices, 1, 1.5 and
  2, are doubles that Python prints in the same way.
\<close>

definition py_signal_eurusd :: "rat py_signal" where
  "py_signal_eurusd =
     \<lparr>sig_instrument = Some ''EURUSD'', sig_direction = Some ''BUY'',
      sig_entry_price = Some (3 / 2), sig_stop_loss = Some 1, sig_take_profit = [2],
      sig_risk_reward = Some ''1:1.0'', sig_timeframe = None, sig_confidence = 1,
      sig_raw_prices = [3 / 2, 1, 2], sig_is_valid_signal = True\<rparr>"

definition py_signal_abcdef :: "rat py_signal" where
  "py_signal_abcdef =
     \<lparr>sig_instrument = Some ''ABCDEF'', sig_direction = Some ''BUY'',
      sig_entry_price = Some (3 / 2), sig_stop_loss = None, sig_take_profit = [],
      sig_risk_reward = None, sig_timeframe = None, sig_confidence = 3 / 5,
      sig_raw_prices = [3 / 2], sig_is_valid_signal = True\<rparr>"

definition py_signal_abupcd :: "rat py_signal" where
  "py_signal_abupcd =
     \<lparr>sig_instrument = Some ''ABUPCD'', sig_direction = Some ''SELL'',
      sig_entry_price = Some (3 / 2), sig_stop_loss = None, sig_take_profit = [],
      sig_risk_reward = None, sig_timeframe = None, sig_confidence = 3 / 5,
      sig_raw_prices = [3 / 2], sig_is_valid_signal = True\<rparr>"

section \<open>Properties of the parser\<close>

subsection \<open>No extractor raises\<close>

lemma extract_direction_cases:
  "extract_direction t = None \<or> extract_direction t = Some ''BUY''
     \<or> extract_direction t = Some ''SELL''"
  by (simp add: extract_direction_def direction_patterns_def upper_def upper_char_def)

lemma extract_entry_price_total: "\<exists>e. extract_entry_price t = Inr e"
  using extract_direction_cases [of t]
  by (auto simp: extract_entry_price_def direction_patterns_def lower_def lower_char_def
           split: option.splits)

lemma calculate_risk_reward_total: "\<exists>r. calculate_risk_reward t = Inr r"
  using extract_entry_price_total [of t]
  by (auto simp: calculate_risk_reward_def bind_err_def Let_def split: option.splits list.splits)

lemma calculate_confidence_total: "\<exists>c. calculate_confidence t = Inr c"
  using extract_entry_price_total [of t]
  by (auto simp: calculate_confidence_def bind_err_def Let_def)

lemma eval_empty: "extract_trading_signal [] = Inr signal_empty"
  by code_simp

lemma eval_eurusd:
  "extract_trading_signal ''EURUSD BUY 1.5 SL 1 TP 2'' = Inr signal_eurusd"
  by code_simp

text \<open>
  C8. \<open>extract_trading_signal\<close> returns a record for every text: none of the places that
  could raise (the dictionary lookup of the direction, the first take profit, the division
  by the risk) is reached in a state where it raises. On the empty text every field is
  \<open>None\<close> or the empty list.
\<close>

theorem extract_trading_signal_total:
  "(\<exists>sig. extract_trading_signal text = Inr sig)
   \<and> extract_trading_signal [] = Inr signal_empty"
proof -
  obtain e where e: "extract_entry_price (upper text) = Inr e"
    using extract_entry_price_total by blast
  obtain r where r: "calculate_risk_reward (upper text) = Inr r"
    using calculate_risk_reward_total by blast
  obtain c where c: "calculate_confidence (upper text) = Inr c"
    using calculate_confidence_total by blast
  have "\<exists>sig. extract_trading_signal text = Inr sig"
    by (simp add: extract_trading_signal_def bind_err_def Let_def e r c)
  then show ?thesis
    using eval_empty by simp
qed

theorem extract_trading_signal_total_witness:
  "extract_trading_signal ''EURUSD BUY 1.5 SL 1 TP 2'' = Inr signal_eurusd
   \<and> extract_trading_signal [] = Inr signal_empty"
  using extract_trading_signal_total [of "''EURUSD BUY 1.5 SL 1 TP 2''"]
    eval_eurusd
  by simp

subsection \<open>Confidence\<close>

lemma find_Some_mem: "find P xs = Some x \<Longrightarrow> x \<in> set xs"
  by (induction xs) (auto split: if_splits)

lemma re_search_forex_pattern_length:
  "re_search forex_pattern t = Some s \<Longrightarrow> length s = 6"
proof (induction t)
  case Nil
  then show ?case by simp
next
  case (Cons c cs)
  show ?case
  proof (cases "forex_pattern (c # cs)")
    case None
    with Cons show ?thesis by simp
  next
    case (Some g)
    then have "length g = 6"
      by (cases "(c # cs)" rule: forex_pattern.cases) (auto split: if_splits)
    with Some Cons.prems show ?thesis by simp
  qed
qed

lemma extract_instrument_nonempty:
  assumes "extract_instrument t = Some s"
  shows "s \<noteq> []"
proof (cases "find (\<lambda>pair. list_ex (\<lambda>pattern. str_in pattern t) (pair_patterns pair))
               forex_pairs")
  case None
  with assms have "re_search forex_pattern t = Some s"
    by (simp add: extract_instrument_def)
  then have "length s = 6"
    by (rule re_search_forex_pattern_length)
  then show ?thesis by auto
next
  case (Some p)
  with assms have "s = p"
    by (simp add: extract_instrument_def)
  with Some have "s \<in> set forex_pairs"
    by (auto dest: find_Some_mem)
  then show ?thesis
    by (auto simp: forex_pairs_def)
qed

lemma truthy_instrument: "truthy_str (extract_instrument t) = (extract_instrument t \<noteq> None)"
  by (auto simp: truthy_str_def dest: extract_instrument_nonempty split: option.splits)

lemma truthy_direction: "truthy_str (extract_direction t) = (extract_direction t \<noteq> None)"
  using extract_direction_cases [of t] by (auto simp: truthy_str_def)

lemma calculate_confidence_value:
  assumes "extract_entry_price t = Inr e"
  shows "calculate_confidence t =
           Inr (1 / 5 * of_nat (of_bool (extract_instrument t \<noteq> None)
                  + of_bool (extract_direction t \<noteq> None)
                  + of_bool (truthy_float e) + of_bool (truthy_float (extract_stop_loss t))
                  + of_bool (extract_take_profit t \<noteq> [])))"
  using assms
  by (simp add: calculate_confidence_def bind_err_def Let_def truthy_instrument truthy_direction)

lemma eval_entry_zero: "extract_trading_signal ''ENTRY 0'' = Inr signal_entry_zero"
  by code_simp

text \<open>
  C1, as stated, fails: on \<open>ENTRY 0\<close> the record has an entry price, the number 0, so one
  of the five fields is present, and its confidence is 0, not 0.2.
\<close>

theorem confidence_present_count_counterexample:
  "extract_trading_signal ''ENTRY 0'' = Inr signal_entry_zero
   \<and> entry_price signal_entry_zero = Some 0
   \<and> present_count signal_entry_zero = 1
   \<and> confidence signal_entry_zero \<noteq> 1 / 5 * of_nat (present_count signal_entry_zero)"
  using eval_entry_zero by (simp add: signal_entry_zero_def present_count_def)

text \<open>
  C1, amended. For every text \<open>extract_trading_signal\<close> returns a record whose confidence
  lies between 0 and 1 and is exactly 0.2 times the number of these five indicators that
  hold: an instrument was found, a direction was found, the entry price was found and is
  not zero, the stop loss was found and is not zero, at least one take profit was found.
  Nothing else enters the confidence.
\<close>

theorem confidence_counts_truthy:
  "\<exists>sig. extract_trading_signal text = Inr sig
         \<and> confidence sig = 1 / 5 * of_nat (truthy_count sig)
         \<and> 0 \<le> confidence sig \<and> confidence sig \<le> 1"
proof -
  obtain e where e: "extract_entry_price (upper text) = Inr e"
    using extract_entry_price_total by blast
  obtain r where r: "calculate_risk_reward (upper text) = Inr r"
    using calculate_risk_reward_total by blast
  show ?thesis
    by (simp add: extract_trading_signal_def bind_err_def Let_def e r
          calculate_confidence_value [OF e] truthy_count_def)
qed

theorem confidence_counts_truthy_witness:
  "extract_trading_signal ''EURUSD BUY 1.5 SL 1 TP 2'' = Inr signal_eurusd
   \<and> confidence signal_eurusd = 1 / 5 * of_nat (truthy_count signal_eurusd)
   \<and> truthy_count signal_eurusd = 5"
proof -
  have "truthy_count signal_eurusd = 5"
    by (simp add: truthy_count_def signal_eurusd_def truthy_float_def)
  then show ?thesis
    using confidence_counts_truthy [of "''EURUSD BUY 1.5 SL 1 TP 2''"]
      eval_eurusd
    by auto
qed

subsection \<open>Validity\<close>

lemma eval_eurusd_entry_zero:
  "extract_trading_signal ''EURUSD BUY ENTRY 0'' = Inr signal_eurusd_entry_zero"
  by code_simp

text \<open>
  C2, as stated, fails: on \<open>EURUSD BUY ENTRY 0\<close> the instrument, the direction and the
  entry price are present and the confidence is 0.4, yet the record is not valid.
\<close>

theorem spec_valid_counterexample:
  "extract_trading_signal ''EURUSD BUY ENTRY 0'' = Inr signal_eurusd_entry_zero
   \<and> spec_valid signal_eurusd_entry_zero \<and> \<not> is_valid_signal signal_eurusd_entry_zero"
  using eval_eurusd_entry_zero by (simp add: signal_eurusd_entry_zero_def spec_valid_def)

text \<open>
  C2, amended. For every text, \<open>is_valid_signal\<close> of the returned record is true if and
  only if the instrument is present, the direction is present, at least one of these holds:
  the entry price is present and not zero, the stop loss is present and not zero, the list
  of take profits is not empty; and the confidence is at least 0.4.
\<close>

theorem is_valid_signal_iff:
  "\<exists>sig. extract_trading_signal text = Inr sig
         \<and> (is_valid_signal sig \<longleftrightarrow>
              instrument sig \<noteq> None \<and> direction sig \<noteq> None
              \<and> (truthy_float (entry_price sig) \<or> truthy_float (stop_loss sig)
                     \<or> take_profit sig \<noteq> [])
              \<and> 2 / 5 \<le> confidence sig)"
proof -
  obtain e where e: "extract_entry_price (upper text) = Inr e"
    using extract_entry_price_total by blast
  obtain r where r: "calculate_risk_reward (upper text) = Inr r"
    using calculate_risk_reward_total by blast
  obtain c where c: "calculate_confidence (upper text) = Inr c"
    using calculate_confidence_total by blast
  show ?thesis
    by (simp add: extract_trading_signal_def bind_err_def Let_def e r c validate_signal_def
          truthy_instrument truthy_direction)
qed

theorem is_valid_signal_iff_witness:
  "extract_trading_signal ''EURUSD BUY 1.5 SL 1 TP 2'' = Inr signal_eurusd
   \<and> is_valid_signal signal_eurusd
   \<and> instrument signal_eurusd \<noteq> None \<and> direction signal_eurusd \<noteq> None
   \<and> truthy_float (entry_price signal_eurusd) \<and> 2 / 5 \<le> confidence signal_eurusd"
  using is_valid_signal_iff [of "''EURUSD BUY 1.5 SL 1 TP 2''"] eval_eurusd
  by (simp add: signal_eurusd_def truthy_float_def)

subsection \<open>Prices\<close>

lemma float_tok_nonneg: "float_tok g = Some p \<Longrightarrow> 0 \<le> p"
  by (auto simp: float_tok_def Let_def split: if_splits)

lemma bind_float_tok_nonneg:
  "Option.bind x (\<lambda>(g, r). float_tok g) = Some p \<Longrightarrow> 0 \<le> p"
  by (auto simp: bind_eq_Some_conv dest: float_tok_nonneg)

lemma extract_entry_price_nonneg: "extract_entry_price t = Inr (Some p) \<Longrightarrow> 0 \<le> p"
  by (auto simp: extract_entry_price_def split: option.splits if_splits
           dest: bind_float_tok_nonneg)

lemma extract_stop_loss_nonneg: "extract_stop_loss t = Some p \<Longrightarrow> 0 \<le> p"
  by (auto simp: extract_stop_loss_def dest: bind_float_tok_nonneg)

lemma eval_zero_prices: "extract_trading_signal ''ENTRY 0 SL 0'' = Inr signal_zero_prices"
  by code_simp

text \<open>
  C9, as stated, fails: on \<open>ENTRY 0 SL 0\<close> the entry price and the stop loss are
  populated and both are 0.
\<close>

theorem prices_positive_counterexample:
  "extract_trading_signal ''ENTRY 0 SL 0'' = Inr signal_zero_prices
   \<and> entry_price signal_zero_prices = Some 0 \<and> stop_loss signal_zero_prices = Some 0
   \<and> \<not> prices_positive signal_zero_prices"
  using eval_zero_prices by (simp add: signal_zero_prices_def prices_positive_def)

text \<open>
  C9, amended. In every record returned by \<open>extract_trading_signal\<close>, a populated entry
  price or stop loss is a number greater than or equal to zero.
\<close>

theorem prices_never_negative:
  "\<exists>sig. extract_trading_signal text = Inr sig \<and> prices_nonneg sig"
proof -
  obtain e where e: "extract_entry_price (upper text) = Inr e"
    using extract_entry_price_total by blast
  obtain r where r: "calculate_risk_reward (upper text) = Inr r"
    using calculate_risk_reward_total by blast
  obtain c where c: "calculate_confidence (upper text) = Inr c"
    using calculate_confidence_total by blast
  have "case e of None \<Rightarrow> True | Some p \<Rightarrow> 0 \<le> p"
    using e extract_entry_price_nonneg by (auto split: option.splits)
  moreover have "case extract_stop_loss (upper text) of None \<Rightarrow> True | Some p \<Rightarrow> 0 \<le> p"
    using extract_stop_loss_nonneg by (auto split: option.splits)
  ultimately show ?thesis
    by (simp add: extract_trading_signal_def bind_err_def Let_def e r c prices_nonneg_def)
qed

theorem prices_never_negative_witness:
  "extract_trading_signal ''EURUSD BUY 1.5 SL 1 TP 2'' = Inr signal_eurusd
   \<and> prices_nonneg signal_eurusd \<and> entry_price signal_eurusd = Some (3 / 2)"
  using prices_never_negative [of "''EURUSD BUY 1.5 SL 1 TP 2''"] eval_eurusd
  by (simp add: signal_eurusd_def)

subsection \<open>The pre-filter\<close>

text \<open>
  C10. A text whose record is a valid signal is accepted by \<open>is_forex_related\<close>: a valid
  record has an instrument, and the pre-filter runs the same instrument extraction on the
  same upper-case text first.
\<close>

theorem valid_signal_is_forex_related:
  assumes "extract_trading_signal text = Inr sig" and "is_valid_signal sig"
  shows "is_forex_related text"
proof -
  obtain e where e: "extract_entry_price (upper text) = Inr e"
    using extract_entry_price_total by blast
  obtain r where r: "calculate_risk_reward (upper text) = Inr r"
    using calculate_risk_reward_total by blast
  obtain c where c: "calculate_confidence (upper text) = Inr c"
    using calculate_confidence_total by blast
  from assms have "truthy_str (extract_instrument (upper text))"
    by (auto simp: extract_trading_signal_def bind_err_def Let_def e r c validate_signal_def
             split: if_splits)
  then show ?thesis
    by (simp add: is_forex_related_def)
qed

theorem valid_signal_is_forex_related_witness:
  "extract_trading_signal ''EURUSD BUY 1.5 SL 1 TP 2'' = Inr signal_eurusd
   \<and> is_valid_signal signal_eurusd \<and> is_forex_related ''EURUSD BUY 1.5 SL 1 TP 2''"
proof -
  have v: "is_valid_signal signal_eurusd"
    by (simp add: signal_eurusd_def)
  show ?thesis
    using valid_signal_is_forex_related [OF eval_eurusd v] eval_eurusd v by simp
qed

section \<open>Properties of the escalation\<close>

lemma deliveries_plain_loop:
  "deliveries (plain_loop env msg md is) = map (\<lambda>i. (follow_up_message msg, follow_up_data md i)) is"
  by (induction "is") (auto split: outcome.splits)

lemma gaps_plain_loop: "gaps 0 (plain_loop env msg md is) = replicate (length is) 5"
  by (induction "is") (auto split: outcome.splits)

lemma deliveries_voice_loop:
  "\<forall>i\<in>set is. env i \<noteq> Raised \<Longrightarrow>
   deliveries (voice_loop env msg md is) = map (\<lambda>i. (voice_follow_up_message msg i, voice_follow_up_data md i)) is"
  by (induction "is") (auto split: outcome.splits)

lemma gaps_voice_loop:
  "\<forall>i\<in>set is. env i \<noteq> Raised \<Longrightarrow> gaps 0 (voice_loop env msg md is) = replicate (length is) 3"
  by (induction "is") (auto split: outcome.splits)


lemma delivered_texts_plain:
  "delivered_texts (send_persistent_notifications d env msg md)
     = replicate (nat (min (d div 5) 6)) (follow_up_message msg)"
  by (simp add: delivered_texts_def send_persistent_notifications_def deliveries_plain_loop
        comp_def map_replicate_const)

lemma deliveries_voice_loop_subset:
  "set (deliveries (voice_loop env msg md is))
     \<subseteq> (\<lambda>i. (voice_follow_up_message msg i, voice_follow_up_data md i)) ` set is"
  by (induction "is") (auto split: outcome.splits)

lemma plain_copy:
  assumes "(m, data) \<in> set (deliveries (send_persistent_notifications d env msg md))"
    and "k \<noteq> ''id''"
  shows "data k = md k"
proof -
  from assms(1) obtain i where "data = follow_up_data md i"
    unfolding send_persistent_notifications_def Let_def deliveries_plain_loop by auto
  with assms(2) show ?thesis
    by (simp only: follow_up_data_def fun_upd_apply if_False)
qed

lemma voice_copy:
  assumes "(m, data) \<in> set (deliveries (send_voice_persistent_notifications d env msg md))"
    and "k \<noteq> ''id''"
  shows "data k = md k"
proof -
  from assms(1) deliveries_voice_loop_subset [of env msg md "[0..<nat (min (d div 3) 8)]"]
  obtain i where "data = voice_follow_up_data md i"
    unfolding send_voice_persistent_notifications_def Let_def by auto
  with assms(2) show ?thesis
    by (simp only: voice_follow_up_data_def fun_upd_apply if_False)
qed

lemma map_shift_upt: "map (\<lambda>i. f (i + 1)) [0..<n] = map f [1..<Suc n]"
proof -
  have "map f (map Suc [0..<n]) = map f [1..<Suc n]"
    by (simp only: map_Suc_upt One_nat_def)
  then show ?thesis
    by (simp add: comp_def)
qed

text \<open>
  C3, as stated, fails: with duration 30 the plain profile (interval 5, cap 6) sends six
  follow-ups and all six carry the same text, the base message behind one fixed label; that
  text is none of the four the cyclic list would give.
\<close>

theorem follow_up_labels_counterexample:
  "delivered_texts (send_persistent_notifications 30 always_sent ''FOREX'' Map.empty)
     = replicate 6 (follow_up_message ''FOREX'')
   \<and> follow_up_message ''FOREX'' \<notin> set (map (voice_follow_up_message ''FOREX'') [0..<4])"
  by (simp add: delivered_texts_plain upt_rec follow_up_message_def voice_follow_up_message_def
        urgency_levels_def emoji_red_def emoji_siren_def emoji_speaker_def emoji_warning_def)

text \<open>
  C3, amended. The plain job makes exactly \<open>min (duration div 5) 6\<close> delivery attempts,
  each after a sleep of 5 seconds, and every one carries the base text behind the one fixed
  label. The voice job, when no attempt raises, makes exactly \<open>min (duration div 3) 8\<close>
  attempts, each after a sleep of 3 seconds; follow-up number \<open>i + 1\<close> carries entry
  \<open>i mod 4\<close> of the list of four distinct urgency labels, a blank line and the base text.
\<close>

theorem follow_up_schedule:
  "deliveries (send_persistent_notifications d env msg md)
     = map (\<lambda>i. (follow_up_message msg, follow_up_data md i)) [0..<nat (min (d div 5) 6)]
   \<and> gaps 0 (send_persistent_notifications d env msg md) = replicate (nat (min (d div 5) 6)) 5
   \<and> ((\<forall>i. env i \<noteq> Raised) \<longrightarrow>
         deliveries (send_voice_persistent_notifications d env msg md)
           = map (\<lambda>i. (voice_follow_up_message msg i, voice_follow_up_data md i))
               [0..<nat (min (d div 3) 8)]
         \<and> gaps 0 (send_voice_persistent_notifications d env msg md)
             = replicate (nat (min (d div 3) 8)) 3)
   \<and> voice_follow_up_message msg i = urgency_levels ! (i mod 4) @ newline @ newline @ msg
   \<and> length urgency_levels = 4 \<and> distinct urgency_levels"
proof -
  have "length urgency_levels = 4"
    by (simp add: urgency_levels_def)
  moreover have "distinct urgency_levels"
    by (simp add: urgency_levels_def emoji_siren_def emoji_speaker_def emoji_warning_def)
  ultimately show ?thesis
    by (simp add: send_persistent_notifications_def send_voice_persistent_notifications_def
          deliveries_plain_loop gaps_plain_loop deliveries_voice_loop gaps_voice_loop
          voice_follow_up_message_def)
qed

theorem follow_up_schedule_witness:
  "(\<forall>i. always_sent i \<noteq> Raised)
   \<and> length (deliveries (send_persistent_notifications 30 always_sent ''FOREX'' Map.empty)) = 6
   \<and> gaps 0 (send_persistent_notifications 30 always_sent ''FOREX'' Map.empty) = replicate 6 5
   \<and> length (deliveries (send_voice_persistent_notifications 30 always_sent ''FOREX'' Map.empty))
       = 8
   \<and> gaps 0 (send_voice_persistent_notifications 30 always_sent ''FOREX'' Map.empty)
       = replicate 8 3"
proof -
  have h: "\<forall>i. always_sent i \<noteq> Raised"
    by (simp add: always_sent_def)
  have n: "nat (min (30 div 5) 6) = 6" "nat (min (30 div 3) 8) = 8"
    by simp_all
  from follow_up_schedule [of 30 always_sent "''FOREX''" Map.empty 0] h
  have "deliveries (send_persistent_notifications 30 always_sent ''FOREX'' Map.empty)
          = map (\<lambda>i. (follow_up_message ''FOREX'', follow_up_data Map.empty i))
              [0..<nat (min (30 div 5) 6)]"
    and "gaps 0 (send_persistent_notifications 30 always_sent ''FOREX'' Map.empty)
          = replicate (nat (min (30 div 5) 6)) 5"
    and "deliveries (send_voice_persistent_notifications 30 always_sent ''FOREX'' Map.empty)
          = map (\<lambda>i. (voice_follow_up_message ''FOREX'' i, voice_follow_up_data Map.empty i))
              [0..<nat (min (30 div 3) 8)]"
    and "gaps 0 (send_voice_persistent_notifications 30 always_sent ''FOREX'' Map.empty)
          = replicate (nat (min (30 div 3) 8)) 3"
    by blast+
  with h show ?thesis
    by (simp only: n length_map length_upt) simp
qed

text \<open>
  C4, as stated, fails: on the voice transport the follow-ups of a message with id 42 have
  the ids \<open>42_voice_followup_1\<close> and \<open>42_voice_followup_2\<close>.
\<close>

theorem follow_up_id_counterexample:
  "delivered_ids (send_voice_persistent_notifications 6 always_sent ''FOREX'' md42)
     = [Some ''42_voice_followup_1'', Some ''42_voice_followup_2'']
   \<and> base_id md42 = ''42''
   \<and> spec_follow_up_id ''42'' 1 = ''42_followup_1''
   \<and> spec_follow_up_id ''42'' 2 = ''42_followup_2''"
  by (simp add: delivered_ids_def send_voice_persistent_notifications_def upt_rec always_sent_def
        voice_follow_up_data_def base_id_def md42_def digit_char_def spec_follow_up_id_def)

text \<open>
  C4, amended. The metadata of follow-up number \<open>n\<close>, for \<open>n\<close> from 1 to the number of
  follow-ups, is the base metadata with the id replaced: by the base id, \<open>_followup_\<close> and
  \<open>n\<close> on the plain transport, and by the base id, \<open>_voice_followup_\<close> and \<open>n\<close> on the
  voice transport (there, when no attempt raises). The base id is the id of the base metadata,
  or \<open>unknown\<close> when it has none. Every other field of every follow-up is the field of the
  base metadata.
\<close>

theorem follow_up_metadata:
  "map snd (deliveries (send_persistent_notifications d env msg md))
     = map (\<lambda>n. md(''id'' \<mapsto> base_id md @ ''_followup_'' @ show_nat n))
         [1..<Suc (nat (min (d div 5) 6))]
   \<and> ((\<forall>i. env i \<noteq> Raised) \<longrightarrow>
         map snd (deliveries (send_voice_persistent_notifications d env msg md))
           = map (\<lambda>n. md(''id'' \<mapsto> base_id md @ ''_voice_followup_'' @ show_nat n))
               [1..<Suc (nat (min (d div 3) 8))])
   \<and> (\<forall>(m, data) \<in> set (deliveries (send_persistent_notifications d env msg md))
                     \<union> set (deliveries (send_voice_persistent_notifications d env msg md)).
         \<forall>k. k \<noteq> ''id'' \<longrightarrow> data k = md k)"
proof (intro conjI impI)
  show "map snd (deliveries (send_persistent_notifications d env msg md))
     = map (\<lambda>n. md(''id'' \<mapsto> base_id md @ ''_followup_'' @ show_nat n))
         [1..<Suc (nat (min (d div 5) 6))]"
    unfolding send_persistent_notifications_def Let_def deliveries_plain_loop
      map_shift_upt [symmetric]
    by (simp add: comp_def follow_up_data_def)
next
  assume "\<forall>i. env i \<noteq> Raised"
  then show "map snd (deliveries (send_voice_persistent_notifications d env msg md))
           = map (\<lambda>n. md(''id'' \<mapsto> base_id md @ ''_voice_followup_'' @ show_nat n))
               [1..<Suc (nat (min (d div 3) 8))]"
    unfolding send_voice_persistent_notifications_def Let_def map_shift_upt [symmetric]
    by (simp add: deliveries_voice_loop comp_def voice_follow_up_data_def)
next
  show "\<forall>(m, data) \<in> set (deliveries (send_persistent_notifications d env msg md))
                     \<union> set (deliveries (send_voice_persistent_notifications d env msg md)).
         \<forall>k. k \<noteq> ''id'' \<longrightarrow> data k = md k"
    using plain_copy voice_copy by blast
qed

theorem follow_up_metadata_witness:
  "(\<forall>i. always_sent i \<noteq> Raised)
   \<and> map snd (deliveries (send_persistent_notifications 12 always_sent ''FOREX'' md42))
       = [md42(''id'' \<mapsto> ''42_followup_1''), md42(''id'' \<mapsto> ''42_followup_2'')]
   \<and> map snd (deliveries (send_voice_persistent_notifications 6 always_sent ''FOREX'' md42))
       = [md42(''id'' \<mapsto> ''42_voice_followup_1''), md42(''id'' \<mapsto> ''42_voice_followup_2'')]"
proof -
  have h: "\<forall>i. always_sent i \<noteq> Raised"
    by (simp add: always_sent_def)
  have b: "base_id md42 = ''42''"
    by (simp add: base_id_def md42_def)
  have n: "nat (min (12 div 5) 6) = 2" "nat (min (6 div 3) 8) = 2"
    by simp_all
  have u: "[1..<Suc 2] = [1, 2]"
    by (simp add: upt_rec)
  from follow_up_metadata [of 12 always_sent "''FOREX''" md42]
  have p: "map snd (deliveries (send_persistent_notifications 12 always_sent ''FOREX'' md42))
     = map (\<lambda>n. md42(''id'' \<mapsto> base_id md42 @ ''_followup_'' @ show_nat n))
         [1..<Suc (nat (min (12 div 5) 6))]"
    by (rule conjunct1)
  from follow_up_metadata [of 6 always_sent "''FOREX''" md42] h
  have v: "map snd (deliveries (send_voice_persistent_notifications 6 always_sent ''FOREX'' md42))
     = map (\<lambda>n. md42(''id'' \<mapsto> base_id md42 @ ''_voice_followup_'' @ show_nat n))
         [1..<Suc (nat (min (6 div 3) 8))]"
    by blast
  have "map snd (deliveries (send_persistent_notifications 12 always_sent ''FOREX'' md42))
       = [md42(''id'' \<mapsto> ''42_followup_1''), md42(''id'' \<mapsto> ''42_followup_2'')]"
    unfolding p n u b by (simp add: digit_char_def)
  moreover
  have "map snd (deliveries (send_voice_persistent_notifications 6 always_sent ''FOREX'' md42))
       = [md42(''id'' \<mapsto> ''42_voice_followup_1''), md42(''id'' \<mapsto> ''42_voice_followup_2'')]"
    unfolding v n u b by (simp add: digit_char_def)
  ultimately show ?thesis
    using h by blast
qed




text \<open>
  C6. On the voice transport the first attempt that raises ends the job: with duration 30,
  eight follow-ups are due, the first one raises, and nothing is attempted after it. The
  plain transport, given the same answers, makes all six of its attempts.
\<close>

theorem voice_job_stops_at_first_raise:
  "deliveries (send_voice_persistent_notifications 30 raises_first ''FOREX'' Map.empty)
     = [(voice_follow_up_message ''FOREX'' 0, voice_follow_up_data Map.empty 0)]
   \<and> send_voice_persistent_notifications 30 raises_first ''FOREX'' Map.empty
     = [Sleep 3, Deliver (voice_follow_up_message ''FOREX'' 0) (voice_follow_up_data Map.empty 0),
        LogJobError]
   \<and> length (deliveries (send_persistent_notifications 30 raises_first ''FOREX'' Map.empty)) = 6"
  by (simp add: send_voice_persistent_notifications_def send_persistent_notifications_def
        deliveries_plain_loop upt_rec raises_first_def)

section \<open>The round trip through the summary\<close>

text \<open>
  The summary of a valid signal is its first line, which shows the instrument and the
  direction, followed by lines that each start with a fixed label and go on with rendered
  floats, a ratio, a timeframe or a percentage. The instrument and the direction are found
  again in the first line when the lines after it contain no currency code and no buy word.
  The labels contain none. What follows a label is written with the characters of Python's
  float notation and with \<open>:\<close>, \<open>,\<close>, the space and \<open>%\<close>, or it is a timeframe; in
  upper case these give \<open>E\<close>, \<open>INF\<close> and \<open>NAN\<close> and the unit words of a timeframe,
  and every currency code and every buy word has a letter that none of them has.
\<close>

subsection \<open>Words and boundaries\<close>

lemma str_in_iff_sublist: "str_in p s \<longleftrightarrow> sublist p s"
  by (induction s) (auto simp: sublist_Cons_right)

lemma str_in_append_cases:
  assumes "str_in w (xs @ ys)" and "w \<noteq> []" and "list_all is_AZ w"
    and "closes_plain xs \<or> opens_plain ys"
  shows "str_in w xs \<or> str_in w ys"
proof -
  from assms(1) have "sublist w (xs @ ys)"
    by (simp add: str_in_iff_sublist)
  then consider "sublist w xs" | "sublist w ys"
    | w1 w2 where "w = w1 @ w2" "suffix w1 xs" "prefix w2 ys"
    by (auto simp: sublist_append)
  then show ?thesis
  proof cases
    case 1
    then show ?thesis by (simp add: str_in_iff_sublist)
  next
    case 2
    then show ?thesis by (simp add: str_in_iff_sublist)
  next
    case 3
    show ?thesis
    proof (cases "w1 = [] \<or> w2 = []")
      case True
      with 3 have "sublist w xs \<or> sublist w ys"
        by auto
      then show ?thesis by (simp add: str_in_iff_sublist)
    next
      case False
      then have n1: "w1 \<noteq> []" and n2: "w2 \<noteq> []" by auto
      from 3(2) n1 obtain zs where xs: "xs = zs @ w1" by (auto simp: suffix_def)
      from 3(3) n2 obtain us where ys: "ys = w2 @ us" by (auto simp: prefix_def)
      from n1 xs have "xs \<noteq> []" "last xs = last w1" by auto
      moreover from n2 ys have "ys \<noteq> []" "hd ys = hd w2" by auto
      moreover from assms(3) 3(1) n1 n2 have "is_AZ (last w1)" "is_AZ (hd w2)"
        by (auto simp: list_all_iff)
      ultimately have "\<not> closes_plain xs" "\<not> opens_plain ys"
        by (auto simp: closes_plain_def opens_plain_def split: list.splits)
      with assms(4) show ?thesis by simp
    qed
  qed
qed

lemma free_append:
  assumes "words_ok ws" and "free ws xs" and "free ws ys"
    and "closes_plain xs \<or> opens_plain ys"
  shows "free ws (xs @ ys)"
  unfolding free_def list_all_iff
proof
  fix w assume w: "w \<in> set ws"
  with assms(1) have "w \<noteq> []" "list_all is_AZ w"
    by (auto simp: words_ok_def list_all_iff)
  moreover from w assms(2,3) have "\<not> str_in w xs" "\<not> str_in w ys"
    by (auto simp: free_def list_all_iff)
  ultimately show "\<not> str_in w (xs @ ys)"
    using assms(4) str_in_append_cases by blast
qed

lemma numeric_chars_plain:
  "\<forall>c \<in> set ''0123456789.:, %''. \<not> is_AZ c \<and> upper_char c = c"
  by code_simp

lemma numeric_char_not_AZ: "numeric_char c \<Longrightarrow> \<not> is_AZ c"
  using numeric_chars_plain unfolding numeric_char_def by blast

lemma upper_char_numeric: "numeric_char c \<Longrightarrow> upper_char c = c"
  using numeric_chars_plain unfolding numeric_char_def by blast

lemma numeric_Nil: "numeric []"
  by (simp add: numeric_def)

lemma numeric_Cons: "numeric (c # s) \<longleftrightarrow> numeric_char c \<and> numeric s"
  by (simp add: numeric_def)

lemma numeric_append: "numeric (xs @ ys) \<longleftrightarrow> numeric xs \<and> numeric ys"
  by (simp add: numeric_def)

lemma numeric_mem: "numeric s \<Longrightarrow> c \<in> set s \<Longrightarrow> numeric_char c"
  by (simp add: numeric_def list_all_iff)

lemma numeric_free:
  assumes "words_ok ws" and "numeric s"
  shows "free ws s"
  unfolding free_def list_all_iff
proof
  fix w assume w: "w \<in> set ws"
  with assms(1) have ne: "w \<noteq> []" and az: "list_all is_AZ w"
    by (auto simp: words_ok_def list_all_iff)
  show "\<not> str_in w s"
  proof
    assume "str_in w s"
    then have "set w \<subseteq> set s"
      by (simp add: str_in_iff_sublist set_mono_sublist)
    with ne have "hd w \<in> set s" by auto
    with assms(2) have "numeric_char (hd w)"
      by (simp add: numeric_mem)
    moreover from ne az have "is_AZ (hd w)"
      by (cases w) auto
    ultimately show False
      using numeric_char_not_AZ by blast
  qed
qed

lemma numeric_opens: "numeric s \<Longrightarrow> opens_plain s"
  by (cases s) (simp_all add: opens_plain_def numeric_Cons numeric_char_not_AZ)

lemma numeric_closes: "numeric s \<Longrightarrow> closes_plain s"
proof (cases "s = []")
  case True
  then show ?thesis by (simp add: closes_plain_def)
next
  case False
  assume "numeric s"
  moreover from False have "last s \<in> set s" by simp
  ultimately have "numeric_char (last s)" by (rule numeric_mem)
  then show ?thesis
    by (simp add: closes_plain_def numeric_char_not_AZ)
qed

lemma upper_numeric: "numeric s \<Longrightarrow> upper s = s"
  by (induction s) (simp_all add: numeric_Cons upper_def upper_char_numeric)

lemma upper_append: "upper (xs @ ys) = upper xs @ upper ys"
  by (simp add: upper_def)

lemma digits_numeric: "\<forall>c \<in> set ''0123456789''. numeric_char c"
  by code_simp

subsection \<open>The characters of a line\<close>

lemma float_chars_body: "\<forall>c \<in> set ''0123456789.e+-infa''. body_char c"
  by code_simp

lemma numeric_chars_body: "\<forall>c \<in> set ''0123456789.:, %''. body_char c"
  by code_simp

lemma body_chars_shout: "\<forall>c \<in> set ''0123456789.e+-infa:, %''. shout_char (upper_char c)"
  by code_simp

lemma forbidden_not_shout: "\<forall>w \<in> set forbidden. \<exists>c \<in> set w. \<not> shout_char c"
  by code_simp

lemma digits_float: "\<forall>c \<in> set ''0123456789''. float_char c"
  by code_simp

lemma float_char_body: "float_char c \<Longrightarrow> body_char c"
  using float_chars_body unfolding float_char_def by blast

lemma numeric_char_body: "numeric_char c \<Longrightarrow> body_char c"
  using numeric_chars_body unfolding numeric_char_def by blast

lemma body_char_shout: "body_char c \<Longrightarrow> shout_char (upper_char c)"
  using body_chars_shout unfolding body_char_def by blast

lemma float_text_body: "float_text s \<Longrightarrow> body_text s"
  by (induction s) (simp_all add: float_text_def body_text_def float_char_body)

lemma numeric_body: "numeric s \<Longrightarrow> body_text s"
  by (induction s) (simp_all add: numeric_def body_text_def numeric_char_body)

lemma body_text_Nil: "body_text []"
  by (simp add: body_text_def)

lemma body_text_append: "body_text (xs @ ys) \<longleftrightarrow> body_text xs \<and> body_text ys"
  by (simp add: body_text_def)

lemma float_text_Nil: "float_text []"
  by (simp add: float_text_def)

lemma float_text_Cons: "float_text (c # s) \<longleftrightarrow> float_char c \<and> float_text s"
  by (simp add: float_text_def)

lemma float_text_append: "float_text (xs @ ys) \<longleftrightarrow> float_text xs \<and> float_text ys"
  by (simp add: float_text_def)

lemma body_text_shout:
  assumes "body_text s" and "c \<in> set (upper s)"
  shows "shout_char c"
proof -
  from assms(2) obtain b where "b \<in> set s" and "c = upper_char b"
    by (auto simp: upper_def)
  moreover from assms(1) \<open>b \<in> set s\<close> have "body_char b"
    by (simp add: body_text_def list_all_iff)
  ultimately show ?thesis
    by (simp add: body_char_shout)
qed

lemma body_free:
  assumes "body_text s"
  shows "free forbidden (upper s)"
  unfolding free_def list_all_iff
proof
  fix w assume w: "w \<in> set forbidden"
  with forbidden_not_shout obtain c where c: "c \<in> set w" "\<not> shout_char c"
    by blast
  show "\<not> str_in w (upper s)"
  proof
    assume "str_in w (upper s)"
    then have "set w \<subseteq> set (upper s)"
      by (simp add: str_in_iff_sublist set_mono_sublist)
    with c(1) have "c \<in> set (upper s)"
      by blast
    with assms have "shout_char c"
      by (rule body_text_shout)
    with c(2) show False
      by simp
  qed
qed

lemma digit_char_float: "float_char (digit_char d)"
proof -
  have "digit_char d \<in> set ''0123456789''"
    unfolding digit_char_def by (rule nth_mem) simp
  with digits_float show ?thesis
    by blast
qed

lemma float_text_digit: "float_text [digit_char d]"
  by (simp add: float_text_Cons float_text_Nil digit_char_float)

lemma float_text_point: "float_text ''.''"
  by code_simp

lemma float_text_zero: "float_text ''0''"
  by code_simp

lemma float_text_show_nat: "float_text (show_nat n)"
proof (induction n rule: show_nat.induct)
  case (1 n)
  show ?case
  proof (cases "n < 10")
    case True
    then have "show_nat n = [digit_char n]" by (subst show_nat.simps) simp
    then show ?thesis by (simp only: float_text_digit)
  next
    case False
    then have "show_nat n = show_nat (n div 10) @ [digit_char n]"
      by (subst show_nat.simps) simp
    with 1 False show ?thesis by (simp only: float_text_append float_text_digit simp_thms)
  qed
qed

lemma float_text_frac_digits: "float_text (frac_digits k r)"
proof (induction k arbitrary: r)
  case 0
  then show ?case by (simp add: float_text_Nil)
next
  case (Suc k)
  from Suc [of "10 * r - of_int \<lfloor>10 * r\<rfloor>"] show ?case
    by (simp add: float_text_Cons float_text_Nil digit_char_float)
qed

lemma float_text_str_float: "float_text (str_float r)"
  unfolding str_float_def Let_def float_text_append
  using float_text_show_nat float_text_frac_digits float_text_point float_text_zero
  by presburger

lemma float_text_format_1f: "float_text (format_1f r)"
  unfolding format_1f_def Let_def float_text_append
  using float_text_show_nat float_text_digit float_text_point by blast

lemma exact_floats_text:
  "(\<forall>x. float_text (fstr exact_floats x)) \<and> (\<forall>x. float_text (fmt1 exact_floats x))"
  by (simp add: exact_floats_def float_text_str_float float_text_format_1f)

lemma body_text_comma_space: "body_text '', ''"
  by code_simp

lemma body_text_percent: "body_text ''%''"
  by code_simp

lemma body_text_colon: "body_text '':''"
  by code_simp

lemma body_text_one_colon: "body_text ''1:''"
  by code_simp

lemma body_text_join_comma: "list_all body_text xs \<Longrightarrow> body_text (join_comma xs)"
proof (induction xs rule: join_comma.induct)
  case 1
  then show ?case by (simp add: body_text_Nil)
next
  case (2 x)
  then show ?case by simp
next
  case (3 x y ys)
  then have "body_text x" "body_text (join_comma (y # ys))" by simp_all
  then have "body_text (x @ '', '' @ join_comma (y # ys))"
    by (simp only: body_text_append body_text_comma_space simp_thms)
  then show ?case by simp
qed

subsection \<open>What the extractors return\<close>

lemma re_search_Some: "re_search m t = Some g \<Longrightarrow> \<exists>s. m s = Some g"
  by (induction t) (auto split: option.splits)

lemma match_alts_Some: "match_alts alts k s = Some g \<Longrightarrow> \<exists>r. k r = Some g"
  by (induction alts) (auto simp: bind_eq_Some_conv split: option.splits)

lemma first_search_Some:
  "first_search ps t = Some g \<Longrightarrow> \<exists>p \<in> set ps. \<exists>s. p s = Some g"
proof (induction ps)
  case Nil
  then show ?case by simp
next
  case (Cons p ps)
  show ?case
  proof (cases "re_search p t")
    case None
    with Cons show ?thesis by auto
  next
    case (Some h)
    with Cons.prems have "re_search p t = Some g" by simp
    then show ?thesis using re_search_Some by fastforce
  qed
qed

lemma is_digit_numeric: "is_digit c \<Longrightarrow> numeric_char c"
  using digits_numeric unfolding is_digit_def by blast

lemma digits_are_numeric: "list_all is_digit ds \<Longrightarrow> numeric ds"
  by (induction ds) (simp_all add: numeric_Nil numeric_Cons is_digit_numeric)

lemma numeric_takeWhile_digit: "numeric (takeWhile is_digit s)"
  by (rule digits_are_numeric) (auto simp: list_all_iff dest: set_takeWhileD)

lemma numeric_take: "numeric s \<Longrightarrow> numeric (take n s)"
  by (auto simp: numeric_def list_all_iff dest: in_set_takeD)

lemma numeric_point: "numeric ''.''"
  by code_simp

lemma price_token_numeric:
  assumes "price_token s = Some (g, r)"
  shows "numeric g"
proof -
  have d: "numeric (takeWhile is_digit x)" for x
    by (rule numeric_takeWhile_digit)
  from assms show ?thesis
    by (auto simp: price_token_def Let_def numeric_append numeric_Cons numeric_Nil d
          numeric_point [unfolded numeric_Cons numeric_Nil]
        split: if_splits list.splits)
qed

lemma candidates_numeric:
  assumes "(g, r) \<in> set (rr_group1_candidates s)"
  shows "numeric g"
proof -
  have d: "numeric (takeWhile is_digit x)" for x
    by (rule numeric_takeWhile_digit)
  have p: "numeric_char (CHR ''.'')"
    using numeric_point by (simp add: numeric_Cons)
  from assms show ?thesis
    by (auto simp: rr_group1_candidates_def Let_def numeric_append numeric_Cons numeric_Nil
          d p numeric_take split: if_splits list.splits)
qed

lemma rr_groups_numeric:
  assumes "rr_groups s = Some (g1, g2)"
  shows "numeric g1 \<and> numeric g2"
proof -
  from assms obtain r where f: "find (\<lambda>(g1, r). sep_price colon_space r \<noteq> None)
      (rr_group1_candidates (dropWhile colon_space s)) = Some (g1, r)"
    and "map_option (\<lambda>(g2, r2). (g1, g2)) (sep_price colon_space r) = Some (g1, g2)"
    by (auto simp: rr_groups_def split: option.splits)
  then obtain r2 where "sep_price colon_space r = Some (g2, r2)"
    by auto
  then have "numeric g2"
    by (auto simp: sep_price_def dest: price_token_numeric)
  moreover from f have "(g1, r) \<in> set (rr_group1_candidates (dropWhile colon_space s))"
    by (rule find_Some_mem)
  then have "numeric g1"
    by (rule candidates_numeric)
  ultimately show ?thesis by simp
qed

lemma calculate_risk_reward_body:
  assumes "\<forall>x. float_text (fmt1 F x)" and "calculate_risk_reward_f F t = Inr (Some s)"
  shows "body_text s"
proof (cases "re_search (match_alts kw_risk_reward rr_groups) t")
  case (Some gs)
  obtain g1 g2 where gs: "gs = (g1, g2)" by (cases gs)
  from Some gs obtain x where "match_alts kw_risk_reward rr_groups x = Some (g1, g2)"
    using re_search_Some by fastforce
  then obtain y where "rr_groups y = Some (g1, g2)"
    using match_alts_Some by fastforce
  then have "numeric g1" "numeric g2"
    using rr_groups_numeric by blast+
  then have "body_text g1" "body_text g2"
    by (simp_all add: numeric_body)
  moreover from assms(2) Some gs have "s = g1 @ '':'' @ g2"
    by (simp add: calculate_risk_reward_f_def)
  ultimately show ?thesis
    using body_text_colon by (simp only: body_text_append simp_thms)
next
  case None
  with assms(2) obtain q where "s = ''1:'' @ fmt1 F q"
    by (auto simp: calculate_risk_reward_f_def bind_err_def Let_def
          split: sum.splits if_splits list.splits)
  moreover from assms(1) have "body_text (fmt1 F q)"
    by (simp add: float_text_body)
  ultimately show ?thesis
    using body_text_one_colon by (simp only: body_text_append simp_thms)
qed

lemma tf_digits_unit_shape:
  assumes "tf_digits_unit u opt s = Some g"
  shows "\<exists>ds. numeric ds \<and> (g = ds @ u @ opt \<or> g = ds @ u)"
proof -
  from assms have "g = takeWhile is_digit s @ u @ opt \<or> g = takeWhile is_digit s @ u"
    by (auto simp: tf_digits_unit_def Let_def split: if_splits)
  then show ?thesis
    using numeric_takeWhile_digit by blast
qed

lemma tf_unit_digits_shape:
  assumes "tf_unit_digits u s = Some g"
  shows "\<exists>ds. numeric ds \<and> g = u @ ds"
proof -
  from assms have "g = u @ takeWhile is_digit (drop (length u) s)"
    by (auto simp: tf_unit_digits_def Let_def split: if_splits)
  then show ?thesis
    using numeric_takeWhile_digit by blast
qed

lemma timeframe_patterns_cases:
  assumes "p \<in> set timeframe_patterns"
  shows "p = tf_digits_unit ''M'' ''IN'' \<or> p = tf_digits_unit ''H'' ''R''
    \<or> p = tf_digits_unit ''D'' ''AY'' \<or> p = tf_digits_unit ''W'' ''EEK''
    \<or> p = tf_unit_digits ''M'' \<or> p = tf_unit_digits ''H'' \<or> p = tf_unit_digits ''D''"
  using assms unfolding timeframe_patterns_def by simp

lemma tf_words_mem:
  "''M'' \<in> set tf_words" "''MIN'' \<in> set tf_words" "''H'' \<in> set tf_words"
  "''HR'' \<in> set tf_words" "''D'' \<in> set tf_words" "''DAY'' \<in> set tf_words"
  "''W'' \<in> set tf_words" "''WEEK'' \<in> set tf_words"
  by (simp_all add: tf_words_def)

lemma shape_digits_unit:
  assumes "tf_digits_unit u opt s = Some tf" and "u \<in> set tf_words" and "u @ opt \<in> set tf_words"
  shows "\<exists>ds w. numeric ds \<and> w \<in> set tf_words \<and> (tf = ds @ w \<or> tf = w @ ds)"
proof -
  from assms(1) obtain ds where "numeric ds" and "tf = ds @ u @ opt \<or> tf = ds @ u"
    using tf_digits_unit_shape by blast
  with assms(2,3) show ?thesis
    by blast
qed

lemma shape_unit_digits:
  assumes "tf_unit_digits u s = Some tf" and "u \<in> set tf_words"
  shows "\<exists>ds w. numeric ds \<and> w \<in> set tf_words \<and> (tf = ds @ w \<or> tf = w @ ds)"
proof -
  from assms(1) obtain ds where "numeric ds" and "tf = u @ ds"
    using tf_unit_digits_shape by blast
  with assms(2) show ?thesis
    by blast
qed

lemma timeframe_pattern_shape:
  assumes "p \<in> set timeframe_patterns" and "p s = Some tf"
  shows "\<exists>ds w. numeric ds \<and> w \<in> set tf_words \<and> (tf = ds @ w \<or> tf = w @ ds)"
proof -
  have a: "''M'' @ ''IN'' = ''MIN''" "''H'' @ ''R'' = ''HR''" "''D'' @ ''AY'' = ''DAY''"
    "''W'' @ ''EEK'' = ''WEEK''"
    by simp_all
  from timeframe_patterns_cases [OF assms(1)] consider
      "p = tf_digits_unit ''M'' ''IN''" | "p = tf_digits_unit ''H'' ''R''"
    | "p = tf_digits_unit ''D'' ''AY''" | "p = tf_digits_unit ''W'' ''EEK''"
    | "p = tf_unit_digits ''M''" | "p = tf_unit_digits ''H''" | "p = tf_unit_digits ''D''"
    by blast
  then show ?thesis
  proof cases
    case 1
    with assms(2) show ?thesis
      by (intro shape_digits_unit [of "''M''" "''IN''" s]) (simp_all only: a tf_words_mem)
  next
    case 2
    with assms(2) show ?thesis
      by (intro shape_digits_unit [of "''H''" "''R''" s]) (simp_all only: a tf_words_mem)
  next
    case 3
    with assms(2) show ?thesis
      by (intro shape_digits_unit [of "''D''" "''AY''" s]) (simp_all only: a tf_words_mem)
  next
    case 4
    with assms(2) show ?thesis
      by (intro shape_digits_unit [of "''W''" "''EEK''" s]) (simp_all only: a tf_words_mem)
  next
    case 5
    with assms(2) show ?thesis
      by (intro shape_unit_digits [of "''M''" s]) (simp_all only: tf_words_mem)
  next
    case 6
    with assms(2) show ?thesis
      by (intro shape_unit_digits [of "''H''" s]) (simp_all only: tf_words_mem)
  next
    case 7
    with assms(2) show ?thesis
      by (intro shape_unit_digits [of "''D''" s]) (simp_all only: tf_words_mem)
  qed
qed

lemma extract_timeframe_shape:
  assumes "extract_timeframe t = Some tf"
  shows "\<exists>ds w. numeric ds \<and> w \<in> set tf_words \<and> (tf = ds @ w \<or> tf = w @ ds)"
proof -
  from assms have "first_search timeframe_patterns t = Some tf"
    by (simp only: extract_timeframe_def)
  from first_search_Some [OF this] obtain p s
    where "p \<in> set timeframe_patterns" "p s = Some tf"
    by (elim bexE exE)
  then show ?thesis
    by (rule timeframe_pattern_shape)
qed

lemma words_ok_forbidden: "words_ok forbidden"
  by code_simp

lemma tf_words_plain:
  "\<forall>u \<in> set tf_words. free forbidden u \<and> upper u = u"
  by code_simp

lemma timeframe_free:
  assumes "extract_timeframe t = Some tf"
  shows "free forbidden tf \<and> upper tf = tf"
proof -
  from extract_timeframe_shape [OF assms] obtain ds u
    where ds: "numeric ds" and u: "u \<in> set tf_words" and tf: "tf = ds @ u \<or> tf = u @ ds"
    by (elim exE conjE)
  from u tf_words_plain have fu: "free forbidden u" and uu: "upper u = u"
    by blast+
  from ds have fd: "free forbidden ds"
    by (rule numeric_free [OF words_ok_forbidden])
  from tf show ?thesis
  proof
    assume e: "tf = ds @ u"
    have "free forbidden (ds @ u)"
      by (rule free_append [OF words_ok_forbidden fd fu disjI1 [OF numeric_closes [OF ds]]])
    with e ds uu show ?thesis
      by (simp only: upper_append upper_numeric simp_thms)
  next
    assume e: "tf = u @ ds"
    have "free forbidden (u @ ds)"
      by (rule free_append [OF words_ok_forbidden fu fd disjI2 [OF numeric_opens [OF ds]]])
    with e ds uu show ?thesis
      by (simp only: upper_append upper_numeric simp_thms)
  qed
qed

subsection \<open>The lines of the summary\<close>

lemma format_signal_summary_split:
  "sig_is_valid_signal sig \<Longrightarrow>
   format_signal_summary F sig = summary_head sig @ summary_lines F sig"
  by (simp add: format_signal_summary_def Let_def summary_head_def summary_lines_def
        entry_line_def stop_line_def target_line_def ratio_line_def frame_line_def
        confidence_line_def)

lemma labels_plain:
  "\<forall>l \<in> set labels. free forbidden (upper l) \<and> opens_plain (upper l)
      \<and> closes_plain (upper l) \<and> upper l \<noteq> []"
  by code_simp

lemma quiet_Nil: "quiet []"
  by code_simp

lemma opens_plain_append:
  "opens_plain xs \<Longrightarrow> xs \<noteq> [] \<or> opens_plain ys \<Longrightarrow> opens_plain (xs @ ys)"
  by (cases xs) (auto simp: opens_plain_def)

lemma quiet_append:
  assumes "quiet xs" and "quiet ys"
  shows "quiet (xs @ ys)"
proof -
  from assms have "free forbidden xs" "free forbidden ys" "opens_plain xs" "opens_plain ys"
    by (simp_all add: quiet_def)
  then have "free forbidden (xs @ ys)" "opens_plain (xs @ ys)"
    by (simp_all add: free_append [OF words_ok_forbidden] opens_plain_append)
  then show ?thesis
    by (simp add: quiet_def)
qed

lemma quiet_label:
  assumes "l \<in> set labels" and "free forbidden (upper body)"
  shows "quiet (upper (l @ body))"
proof -
  from assms(1) labels_plain
  have l: "free forbidden (upper l)" "opens_plain (upper l)" "closes_plain (upper l)"
    "upper l \<noteq> []"
    by blast+
  have "free forbidden (upper l @ upper body)"
    by (rule free_append [OF words_ok_forbidden l(1) assms(2) disjI1 [OF l(3)]])
  moreover have "opens_plain (upper l @ upper body)"
    by (rule opens_plain_append [OF l(2) disjI1 [OF l(4)]])
  ultimately show ?thesis
    by (simp only: quiet_def upper_append simp_thms)
qed

lemma quiet_label_body:
  assumes "l \<in> set labels" and "body_text body"
  shows "quiet (upper (l @ body))"
  by (rule quiet_label [OF assms(1) body_free [OF assms(2)]])

lemma labels_mem:
  "newline @ emoji_money @ '' Entry: '' \<in> set labels"
  "newline @ emoji_stop @ '' Stop Loss: '' \<in> set labels"
  "newline @ emoji_target @ '' Take Profit: '' \<in> set labels"
  "newline @ emoji_target @ '' Take Profits: '' \<in> set labels"
  "newline @ emoji_bars @ '' Risk/Reward: '' \<in> set labels"
  "newline @ emoji_clock @ '' Timeframe: '' \<in> set labels"
  "newline @ emoji_target @ '' Confidence: '' \<in> set labels"
  unfolding labels_def by (simp_all only: list.set insert_iff simp_thms)

lemma upper_Nil: "upper [] = []"
  by (simp add: upper_def)

lemma quiet_entry_line:
  assumes "\<forall>x. float_text (fstr F x)"
  shows "quiet (upper (entry_line F sig))"
proof (cases "truthy_opt F (sig_entry_price sig)")
  case True
  then have "entry_line F sig
               = (newline @ emoji_money @ '' Entry: '') @ fstr F (the (sig_entry_price sig))"
    by (simp only: entry_line_def if_True)
  moreover from assms have "body_text (fstr F (the (sig_entry_price sig)))"
    by (simp add: float_text_body)
  ultimately show ?thesis
    by (simp only: quiet_label_body [OF labels_mem(1)])
next
  case False
  then have "entry_line F sig = []"
    by (simp only: entry_line_def if_False)
  then show ?thesis
    by (simp only: upper_Nil quiet_Nil)
qed

lemma quiet_stop_line:
  assumes "\<forall>x. float_text (fstr F x)"
  shows "quiet (upper (stop_line F sig))"
proof (cases "truthy_opt F (sig_stop_loss sig)")
  case True
  then have "stop_line F sig
               = (newline @ emoji_stop @ '' Stop Loss: '') @ fstr F (the (sig_stop_loss sig))"
    by (simp only: stop_line_def if_True)
  moreover from assms have "body_text (fstr F (the (sig_stop_loss sig)))"
    by (simp add: float_text_body)
  ultimately show ?thesis
    by (simp only: quiet_label_body [OF labels_mem(2)])
next
  case False
  then have "stop_line F sig = []"
    by (simp only: stop_line_def if_False)
  then show ?thesis
    by (simp only: upper_Nil quiet_Nil)
qed

lemma body_text_targets:
  assumes "\<forall>x. float_text (fstr F x)"
  shows "body_text (join_comma (map (fstr F) xs))"
  by (rule body_text_join_comma) (simp add: list_all_iff assms float_text_body)

lemma quiet_target_line:
  assumes "\<forall>x. float_text (fstr F x)"
  shows "quiet (upper (target_line F sig))"
proof (cases "sig_take_profit sig = []")
  case True
  then have "target_line F sig = []"
    by (simp add: target_line_def)
  then show ?thesis
    by (simp only: upper_Nil quiet_Nil)
next
  case False
  show ?thesis
  proof (cases "length (sig_take_profit sig) = 1")
    case True
    with False have "target_line F sig
        = (newline @ emoji_target @ '' Take Profit: '') @ fstr F (hd (sig_take_profit sig))"
      by (simp add: target_line_def)
    moreover from assms have "body_text (fstr F (hd (sig_take_profit sig)))"
      by (simp add: float_text_body)
    ultimately show ?thesis
      by (simp only: quiet_label_body [OF labels_mem(3)])
  next
    case nl: False
    with False have "target_line F sig
        = (newline @ emoji_target @ '' Take Profits: '')
            @ join_comma (map (fstr F) (sig_take_profit sig))"
      by (simp add: target_line_def)
    then show ?thesis
      by (simp only: quiet_label_body [OF labels_mem(4) body_text_targets [OF assms]])
  qed
qed

lemma quiet_confidence_line: "quiet (upper (confidence_line sig))"
  unfolding confidence_line_def
  by (rule quiet_label_body [OF labels_mem(7)])
     (simp only: body_text_append float_text_body [OF float_text_show_nat] body_text_percent
        simp_thms)

lemma quiet_ratio_line:
  assumes "\<And>s. sig_risk_reward sig = Some s \<Longrightarrow> body_text s"
  shows "quiet (upper (ratio_line sig))"
proof (cases "sig_risk_reward sig")
  case None
  then show ?thesis
    by (simp add: ratio_line_def truthy_str_def upper_Nil quiet_Nil)
next
  case (Some s)
  with assms have "body_text s" by simp
  then have "quiet (upper ((newline @ emoji_bars @ '' Risk/Reward: '') @ s))"
    by (rule quiet_label_body [OF labels_mem(5)])
  with Some show ?thesis
    by (simp add: ratio_line_def str_opt_def upper_Nil quiet_Nil)
qed

lemma quiet_frame_line:
  assumes "\<And>tf. sig_timeframe sig = Some tf \<Longrightarrow> free forbidden tf \<and> upper tf = tf"
  shows "quiet (upper (frame_line sig))"
proof (cases "sig_timeframe sig")
  case None
  then show ?thesis
    by (simp add: frame_line_def truthy_str_def upper_Nil quiet_Nil)
next
  case (Some tf)
  with assms have "free forbidden (upper tf)" by simp
  then have "quiet (upper ((newline @ emoji_clock @ '' Timeframe: '') @ tf))"
    by (rule quiet_label [OF labels_mem(6)])
  with Some show ?thesis
    by (simp add: frame_line_def str_opt_def upper_Nil quiet_Nil)
qed

lemma quiet_summary_lines:
  assumes "\<forall>x. float_text (fstr F x)"
    and "\<And>s. sig_risk_reward sig = Some s \<Longrightarrow> body_text s"
    and "\<And>tf. sig_timeframe sig = Some tf \<Longrightarrow> free forbidden tf \<and> upper tf = tf"
  shows "quiet (upper (summary_lines F sig))"
  unfolding summary_lines_def upper_append
  by (intro quiet_append quiet_entry_line quiet_stop_line quiet_target_line
        quiet_confidence_line quiet_ratio_line quiet_frame_line assms)

subsection \<open>Finding the instrument and the direction again\<close>

lemma str_in_trans: "str_in a b \<Longrightarrow> str_in b c \<Longrightarrow> str_in a c"
  unfolding str_in_iff_sublist by (rule sublist_order.order_trans)

lemma str_in_middle: "str_in p (xs @ p @ ys)"
  unfolding str_in_iff_sublist by (rule sublist_appendI)

lemma free_forbidden_parts:
  "free forbidden s \<Longrightarrow> free currency_codes s \<and> free buy_words s"
  by (simp add: free_def forbidden_def)

lemma words_ok_codes: "words_ok currency_codes"
  by code_simp

lemma words_ok_buy: "words_ok buy_words"
  by code_simp

lemma words_ok_mem: "words_ok ws \<Longrightarrow> w \<in> set ws \<Longrightarrow> w \<noteq> [] \<and> list_all is_AZ w"
  by (simp add: words_ok_def list_all_iff)

lemma free_mem: "free ws s \<Longrightarrow> w \<in> set ws \<Longrightarrow> \<not> str_in w s"
  by (simp add: free_def list_all_iff)

lemma head_open_plain:
  "free forbidden head_open \<and> closes_plain head_open \<and> upper head_open = head_open"
  by code_simp

lemma pairs_halves_in_patterns:
  "\<forall>q \<in> set forex_pairs. \<forall>p \<in> set (pair_patterns q).
      str_in (take 3 q) p \<and> str_in (drop 3 q) p"
  by code_simp

lemma pairs_told_apart:
  "\<forall>p \<in> set forex_pairs. \<forall>q \<in> set forex_pairs.
      str_in (take 3 q) p \<and> str_in (drop 3 q) p \<longrightarrow> q = p"
  by code_simp

lemma pairs_plain:
  "\<forall>p \<in> set forex_pairs. upper p = p \<and> free buy_words p"
  by code_simp

lemma halves_are_codes:
  "q \<in> set forex_pairs \<Longrightarrow> take 3 q \<in> set currency_codes \<and> drop 3 q \<in> set currency_codes"
  by (simp add: currency_codes_def)

lemma code_inside_pair:
  assumes w: "w \<in> set currency_codes"
    and r: "free currency_codes r" "opens_plain r"
    and u: "str_in w (head_open @ p @ r)"
  shows "str_in w p"
proof -
  from words_ok_mem [OF words_ok_codes w] have ne: "w \<noteq> []" and az: "list_all is_AZ w"
    by simp_all
  from head_open_plain have ho: "free forbidden head_open" "closes_plain head_open"
    by simp_all
  from free_forbidden_parts [OF ho(1)] have "free currency_codes head_open"
    by (rule conjunct1)
  from free_mem [OF this w] have "\<not> str_in w head_open" .
  moreover from str_in_append_cases [OF u ne az disjI1 [OF ho(2)]]
  have "str_in w head_open \<or> str_in w (p @ r)" .
  ultimately have "str_in w (p @ r)"
    by simp
  from str_in_append_cases [OF this ne az disjI2 [OF r(2)]]
  have "str_in w p \<or> str_in w r" .
  moreover from free_mem [OF r(1) w] have "\<not> str_in w r" .
  ultimately show ?thesis
    by simp
qed

lemma extract_instrument_summary:
  assumes p: "p \<in> set forex_pairs"
    and r: "free currency_codes r" "opens_plain r"
  shows "extract_instrument (head_open @ p @ r) = Some p"
proof -
  let ?u = "head_open @ p @ r"
  let ?P = "\<lambda>pair. list_ex (\<lambda>pattern. str_in pattern ?u) (pair_patterns pair)"
  have "?P p"
    using str_in_middle [of p head_open r] by (simp add: pair_patterns_def)
  with p have "find ?P forex_pairs \<noteq> None"
    by (auto simp: find_None_iff)
  then obtain q where f: "find ?P forex_pairs = Some q"
    by blast
  then have q: "q \<in> set forex_pairs" and "?P q"
    by (auto simp: find_Some_iff)
  then obtain pat where pat: "pat \<in> set (pair_patterns q)" and in_u: "str_in pat ?u"
    by (auto simp: list_ex_iff)
  from pairs_halves_in_patterns q pat
  have "str_in (take 3 q) pat" "str_in (drop 3 q) pat"
    by blast+
  with in_u have "str_in (take 3 q) ?u" "str_in (drop 3 q) ?u"
    by (blast intro: str_in_trans)+
  with halves_are_codes [OF q] r have "str_in (take 3 q) p" "str_in (drop 3 q) p"
    by (blast intro: code_inside_pair)+
  with pairs_told_apart p q have "q = p"
    by blast
  with f show ?thesis
    by (simp add: extract_instrument_def)
qed

lemma match_lit_prefix:
  "[Lit w] \<in> set alts \<Longrightarrow> prefix w s \<Longrightarrow> match_alts alts Some s \<noteq> None"
  by (induction alts) (auto split: option.splits)

lemma search_lit_found:
  "[Lit w] \<in> set alts \<Longrightarrow> str_in w s \<Longrightarrow> re_search (match_alts alts Some) s \<noteq> None"
proof (induction s)
  case Nil
  then have "prefix w []" by simp
  with Nil(1) have "match_alts alts Some [] \<noteq> None" by (rule match_lit_prefix)
  then show ?case by simp
next
  case (Cons c cs)
  from Cons.prems(2) consider "prefix w (c # cs)" | "str_in w cs"
    by auto
  then show ?case
  proof cases
    case 1
    with Cons.prems(1) have "match_alts alts Some (c # cs) \<noteq> None" by (rule match_lit_prefix)
    then show ?thesis by auto
  next
    case 2
    with Cons have "re_search (match_alts alts Some) cs \<noteq> None" by simp
    then show ?thesis by (auto split: option.splits)
  qed
qed

lemma match_lits_prefix:
  "match_alts (map (\<lambda>w. [Lit w]) ws) Some s \<noteq> None \<Longrightarrow> \<exists>w \<in> set ws. prefix w s"
  by (induction ws) (auto split: option.splits if_splits)

lemma search_lits_found:
  "re_search (match_alts (map (\<lambda>w. [Lit w]) ws) Some) s \<noteq> None \<Longrightarrow> \<exists>w \<in> set ws. str_in w s"
proof (induction s)
  case Nil
  then have "\<exists>w \<in> set ws. prefix w []"
    using match_lits_prefix by fastforce
  then show ?case by auto
next
  case (Cons c cs)
  show ?case
  proof (cases "match_alts (map (\<lambda>w. [Lit w]) ws) Some (c # cs)")
    case None
    with Cons have "\<exists>w \<in> set ws. str_in w cs" by simp
    then show ?thesis by auto
  next
    case (Some a)
    then have "\<exists>w \<in> set ws. prefix w (c # cs)"
      using match_lits_prefix [of ws "c # cs"] by simp
    then show ?thesis by auto
  qed
qed

lemma buy_pattern: "[[Lit ''BUY''], [Lit ''LONG''], [Lit ''BULLISH''], [Lit ''UP'']]
    = map (\<lambda>w. [Lit w]) buy_words"
  by (simp add: buy_words_def)

lemma upper_buy_sell: "upper ''buy'' = ''BUY''" "upper ''sell'' = ''SELL''"
  by code_simp+

lemma extract_direction_buy:
  assumes "str_in ''BUY'' u"
  shows "extract_direction u = Some ''BUY''"
proof -
  have "[Lit ''BUY''] \<in> set [[Lit ''BUY''], [Lit ''LONG''], [Lit ''BULLISH''], [Lit ''UP'']]"
    by simp
  from search_lit_found [OF this assms] show ?thesis
    by (simp add: extract_direction_def direction_patterns_def upper_buy_sell)
qed

lemma extract_direction_sell:
  assumes "free buy_words u" and "str_in ''SELL'' u"
  shows "extract_direction u = Some ''SELL''"
proof -
  have "re_search (match_alts [[Lit ''BUY''], [Lit ''LONG''], [Lit ''BULLISH''], [Lit ''UP'']]
          Some) u = None"
  proof (rule ccontr)
    assume "\<not> ?thesis"
    then have "\<exists>w \<in> set buy_words. str_in w u"
      unfolding buy_pattern by (rule search_lits_found)
    with assms(1) show False
      by (auto simp: free_mem)
  qed
  moreover
  have "[Lit ''SELL'']
          \<in> set [[Lit ''SELL''], [Lit ''SHORT''], [Lit ''BEARISH''], [Lit ''DOWN'']]"
    by simp
  from search_lit_found [OF this assms(2)]
  have "re_search (match_alts [[Lit ''SELL''], [Lit ''SHORT''], [Lit ''BEARISH''],
          [Lit ''DOWN'']] Some) u \<noteq> None" .
  ultimately show ?thesis
    by (simp add: extract_direction_def direction_patterns_def upper_buy_sell)
qed

lemma tail_buy_plain:
  "free currency_codes ''** BUY'' \<and> opens_plain ''** BUY'' \<and> upper ''** BUY'' = ''** BUY''"
  by code_simp

lemma tail_sell_plain:
  "free forbidden ''** SELL'' \<and> opens_plain ''** SELL'' \<and> upper ''** SELL'' = ''** SELL''"
  by code_simp

subsection \<open>The fields of a returned record\<close>

lemma summary_head_eq:
  assumes "sig_instrument sig = Some p" and "sig_direction sig = Some d"
  shows "summary_head sig = head_open @ p @ (''** '' @ d)"
  using assms by (simp add: summary_head_def head_open_def str_opt_def)

lemma extracted_record:
  assumes "extract_trading_signal_f F text = Inr sig"
  obtains e r c where "calculate_risk_reward_f F (upper text) = Inr r"
    and "sig = \<lparr>sig_instrument = extract_instrument (upper text),
                 sig_direction = extract_direction (upper text),
                 sig_entry_price = e,
                 sig_stop_loss = extract_stop_loss_f F (upper text),
                 sig_take_profit = extract_take_profit_f F (upper text),
                 sig_risk_reward = r,
                 sig_timeframe = extract_timeframe (upper text),
                 sig_confidence = c,
                 sig_raw_prices = extract_all_prices_f F text,
                 sig_is_valid_signal = validate_signal_f F
                   \<lparr>sig_instrument = extract_instrument (upper text),
                    sig_direction = extract_direction (upper text),
                    sig_entry_price = e,
                    sig_stop_loss = extract_stop_loss_f F (upper text),
                    sig_take_profit = extract_take_profit_f F (upper text),
                    sig_risk_reward = r,
                    sig_timeframe = extract_timeframe (upper text),
                    sig_confidence = c,
                    sig_raw_prices = extract_all_prices_f F text,
                    sig_is_valid_signal = False\<rparr>\<rparr>"
proof (cases "extract_entry_price_f F (upper text)")
  case (Inl x)
  with assms show ?thesis
    by (simp add: extract_trading_signal_f_def bind_err_def)
next
  case e: (Inr e)
  show ?thesis
  proof (cases "calculate_risk_reward_f F (upper text)")
    case (Inl x)
    with assms e show ?thesis
      by (simp add: extract_trading_signal_f_def bind_err_def)
  next
    case r: (Inr r)
    show ?thesis
    proof (cases "calculate_confidence_f F (upper text)")
      case (Inl x)
      with assms e r show ?thesis
        by (simp add: extract_trading_signal_f_def bind_err_def)
    next
      case c: (Inr c)
      from assms e r c show ?thesis
        by (intro that [of r e c]) (simp_all add: extract_trading_signal_f_def bind_err_def Let_def)
    qed
  qed
qed

lemma extracted_fields:
  assumes "extract_trading_signal_f F text = Inr sig"
  shows "sig_direction sig = extract_direction (upper text)"
    and "sig_timeframe sig = extract_timeframe (upper text)"
    and "calculate_risk_reward_f F (upper text) = Inr (sig_risk_reward sig)"
    and "sig_is_valid_signal sig \<Longrightarrow> truthy_str (extract_direction (upper text))"
proof -
  from assms obtain e r c where r: "calculate_risk_reward_f F (upper text) = Inr r"
    and s: "sig = \<lparr>sig_instrument = extract_instrument (upper text),
                 sig_direction = extract_direction (upper text),
                 sig_entry_price = e,
                 sig_stop_loss = extract_stop_loss_f F (upper text),
                 sig_take_profit = extract_take_profit_f F (upper text),
                 sig_risk_reward = r,
                 sig_timeframe = extract_timeframe (upper text),
                 sig_confidence = c,
                 sig_raw_prices = extract_all_prices_f F text,
                 sig_is_valid_signal = validate_signal_f F
                   \<lparr>sig_instrument = extract_instrument (upper text),
                    sig_direction = extract_direction (upper text),
                    sig_entry_price = e,
                    sig_stop_loss = extract_stop_loss_f F (upper text),
                    sig_take_profit = extract_take_profit_f F (upper text),
                    sig_risk_reward = r,
                    sig_timeframe = extract_timeframe (upper text),
                    sig_confidence = c,
                    sig_raw_prices = extract_all_prices_f F text,
                    sig_is_valid_signal = False\<rparr>\<rparr>"
    by (rule extracted_record)
  show "sig_direction sig = extract_direction (upper text)"
    by (subst s) simp
  show "sig_timeframe sig = extract_timeframe (upper text)"
    by (subst s) simp
  show "calculate_risk_reward_f F (upper text) = Inr (sig_risk_reward sig)"
    by (subst s) (simp add: r)
  show "truthy_str (extract_direction (upper text))" if "sig_is_valid_signal sig"
    using that by (subst (asm) s) (simp add: validate_signal_f_def split: if_splits)
qed

lemma valid_has_direction:
  assumes "extract_trading_signal_f F text = Inr sig" and "sig_is_valid_signal sig"
  shows "sig_direction sig = Some ''BUY'' \<or> sig_direction sig = Some ''SELL''"
proof -
  from extracted_fields(4) [OF assms] have "extract_direction (upper text) \<noteq> None"
    by (simp add: truthy_direction)
  with extract_direction_cases [of "upper text"] extracted_fields(1) [OF assms(1)]
  show ?thesis
    by simp
qed

lemma quiet_lines_of_extracted:
  assumes "\<forall>x. float_text (fstr F x)" and "\<forall>x. float_text (fmt1 F x)"
    and "extract_trading_signal_f F text = Inr sig"
  shows "quiet (upper (summary_lines F sig))"
proof (rule quiet_summary_lines [OF assms(1)])
  fix s assume "sig_risk_reward sig = Some s"
  with extracted_fields(3) [OF assms(3)]
  have "calculate_risk_reward_f F (upper text) = Inr (Some s)"
    by simp
  with assms(2) show "body_text s"
    by (rule calculate_risk_reward_body)
next
  fix tf assume "sig_timeframe sig = Some tf"
  with extracted_fields(2) [OF assms(3)] have "extract_timeframe (upper text) = Some tf"
    by simp
  then show "free forbidden tf \<and> upper tf = tf"
    by (rule timeframe_free)
qed

subsection \<open>The exact arithmetic\<close>

text \<open>Over the exact arithmetic the parser of this section is the parser of the sections above.\<close>

lemma exact_floats_fields:
  "float_of exact_floats = float_tok"
  "truthy exact_floats = (\<lambda>x. x \<noteq> 0)"
  "fsub exact_floats = (\<lambda>x y. x - y)"
  "fabs exact_floats = abs"
  "fpos exact_floats = (\<lambda>x. 0 < x)"
  "fdiv exact_floats = (\<lambda>x y. x / y)"
  "plausible exact_floats = (\<lambda>p. 1 / 100 \<le> p \<and> p \<le> 100000)"
  "fstr exact_floats = str_float"
  "fmt1 exact_floats = format_1f"
  by (simp_all add: exact_floats_def)

lemma truthy_opt_exact:
  "truthy_opt exact_floats x = truthy_float x"
  unfolding truthy_opt_def truthy_float_def exact_floats_fields by (rule refl)

lemma extract_entry_price_exact:
  "extract_entry_price_f exact_floats text = extract_entry_price text"
  unfolding extract_entry_price_f_def extract_entry_price_def exact_floats_fields
  by (rule refl)

lemma extract_stop_loss_exact:
  "extract_stop_loss_f exact_floats text = extract_stop_loss text"
  unfolding extract_stop_loss_f_def extract_stop_loss_def exact_floats_fields
  by (rule refl)

lemma extract_take_profit_exact:
  "extract_take_profit_f exact_floats text = extract_take_profit text"
  unfolding extract_take_profit_f_def extract_take_profit_def exact_floats_fields
  by (rule refl)

lemma extract_all_prices_exact:
  "extract_all_prices_f exact_floats text = extract_all_prices text"
  unfolding extract_all_prices_f_def extract_all_prices_def exact_floats_fields
  by (rule refl)

lemma calculate_risk_reward_exact:
  "calculate_risk_reward_f exact_floats text = calculate_risk_reward text"
  unfolding calculate_risk_reward_f_def calculate_risk_reward_def
    extract_entry_price_exact extract_stop_loss_exact extract_take_profit_exact
    truthy_opt_exact exact_floats_fields
  by (simp cong: sum.case_cong option.case_cong list.case_cong if_cong)

lemma calculate_confidence_exact:
  "calculate_confidence_f exact_floats text = calculate_confidence text"
  unfolding calculate_confidence_f_def calculate_confidence_def
    extract_entry_price_exact extract_stop_loss_exact extract_take_profit_exact
    truthy_opt_exact
  by (rule refl)

lemma validate_signal_exact:
  "validate_signal_f exact_floats (to_py sig) = validate_signal sig"
  by (simp add: validate_signal_f_def validate_signal_def truthy_opt_exact to_py_def)

lemma extract_trading_signal_exact:
  "extract_trading_signal_f exact_floats text = map_sum id to_py (extract_trading_signal text)"
proof -
  have v: "validate_signal_f exact_floats
             \<lparr>sig_instrument = i, sig_direction = d, sig_entry_price = e, sig_stop_loss = s,
              sig_take_profit = t, sig_risk_reward = r, sig_timeframe = f,
              sig_confidence = c, sig_raw_prices = p, sig_is_valid_signal = b\<rparr>
           = validate_signal
             \<lparr>instrument = i, direction = d, entry_price = e, stop_loss = s,
              take_profit = t, risk_reward = r, timeframe = f,
              confidence = c, raw_prices = p, is_valid_signal = b\<rparr>" for i d e s t r f c p b
    using validate_signal_exact
      [of "\<lparr>instrument = i, direction = d, entry_price = e, stop_loss = s,
              take_profit = t, risk_reward = r, timeframe = f,
              confidence = c, raw_prices = p, is_valid_signal = b\<rparr>"]
    by (simp add: to_py_def)
  show ?thesis
    unfolding extract_trading_signal_f_def extract_trading_signal_def
      extract_entry_price_exact extract_stop_loss_exact extract_take_profit_exact
      calculate_risk_reward_exact calculate_confidence_exact extract_all_prices_exact
    by (simp add: bind_err_def Let_def to_py_def v split: sum.splits)
qed

subsection \<open>The round trip\<close>

lemma eval_f_eurusd:
  "extract_trading_signal_f exact_floats ''EURUSD BUY 1.5 SL 1 TP 2'' = Inr py_signal_eurusd"
  by code_simp

lemma eval_f_abcdef:
  "extract_trading_signal_f exact_floats ''abc/def buy 1.5'' = Inr py_signal_abcdef"
  by code_simp

lemma eval_f_abupcd:
  "extract_trading_signal_f exact_floats ''abu/pcd sell 1.5'' = Inr py_signal_abupcd"
  by code_simp

text \<open>
  C7, as stated, fails. The generic pattern needs a separator between the two halves of an
  instrument and the summary prints none: the valid record of \<open>abc/def buy 1.5\<close> has the
  instrument \<open>ABCDEF\<close>, and no instrument is found in its summary, upper-cased or not.
  The valid record of \<open>abu/pcd sell 1.5\<close> has the direction \<open>SELL\<close>, and its summary,
  which contains \<open>ABUPCD\<close>, gives \<open>BUY\<close>. The one price in both, 1.5, is a double and
  Python prints it as the exact arithmetic does.
\<close>

theorem summary_round_trip_counterexample:
  "extract_trading_signal_f exact_floats ''abc/def buy 1.5'' = Inr py_signal_abcdef
   \<and> sig_is_valid_signal py_signal_abcdef
   \<and> sig_instrument py_signal_abcdef = Some ''ABCDEF''
   \<and> extract_instrument (upper (format_signal_summary exact_floats py_signal_abcdef)) = None
   \<and> extract_instrument (format_signal_summary exact_floats py_signal_abcdef) = None
   \<and> extract_trading_signal_f exact_floats ''abu/pcd sell 1.5'' = Inr py_signal_abupcd
   \<and> sig_is_valid_signal py_signal_abupcd
   \<and> sig_direction py_signal_abupcd = Some ''SELL''
   \<and> extract_direction (upper (format_signal_summary exact_floats py_signal_abupcd))
       = Some ''BUY''"
proof -
  have "extract_instrument (upper (format_signal_summary exact_floats py_signal_abcdef)) = None"
    by code_simp
  moreover
  have "extract_instrument (format_signal_summary exact_floats py_signal_abcdef) = None"
    by code_simp
  moreover
  have "extract_direction (upper (format_signal_summary exact_floats py_signal_abupcd))
          = Some ''BUY''"
    by code_simp
  moreover
  have "sig_is_valid_signal py_signal_abcdef" "sig_instrument py_signal_abcdef = Some ''ABCDEF''"
    by (simp_all add: py_signal_abcdef_def)
  moreover
  have "sig_is_valid_signal py_signal_abupcd" "sig_direction py_signal_abupcd = Some ''SELL''"
    by (simp_all add: py_signal_abupcd_def)
  ultimately show ?thesis
    using eval_f_abcdef eval_f_abupcd by blast
qed

text \<open>
  C7, amended. For every record returned by \<open>extract_trading_signal\<close> that is a valid
  signal and whose instrument is one of the catalogued pairs, the instrument extraction and
  the direction extraction, run on the upper-case form of the text produced by
  \<open>format_signal_summary\<close> as the parser runs them, yield the instrument and the direction
  stored in the record. This holds in every float arithmetic \<open>F\<close> whose two renderings
  \<open>str(x)\<close> and \<open>:.1f\<close> are written with the characters of Python's float notation,
  whatever it rounds to, whatever it takes for zero and whatever it prints: \<open>2.345e-05\<close>,
  \<open>inf\<close> and \<open>nan\<close> are covered.
\<close>

theorem summary_round_trip:
  assumes "\<forall>x. float_text (fstr F x)" and "\<forall>x. float_text (fmt1 F x)"
    and "extract_trading_signal_f F text = Inr sig" and "sig_is_valid_signal sig"
    and "sig_instrument sig = Some pair" and "pair \<in> set forex_pairs"
  shows "extract_instrument (upper (format_signal_summary F sig)) = sig_instrument sig
         \<and> extract_direction (upper (format_signal_summary F sig)) = sig_direction sig"
proof -
  let ?t = "upper (summary_lines F sig)"
  have qt: "quiet ?t"
    using assms(1,2,3) by (rule quiet_lines_of_extracted)
  then have ft: "free forbidden ?t" and ot: "opens_plain ?t"
    by (simp_all add: quiet_def)
  from pairs_plain assms(6) have up: "upper pair = pair" and bp: "free buy_words pair"
    by blast+
  from head_open_plain have ho: "free forbidden head_open" "closes_plain head_open"
    "upper head_open = head_open"
    by simp_all
  from valid_has_direction [OF assms(3,4)] show ?thesis
  proof
    assume d: "sig_direction sig = Some ''BUY''"
    let ?r = "''** BUY'' @ ?t"
    have "summary_head sig = head_open @ pair @ ''** BUY''"
      by (simp add: summary_head_eq [OF assms(5) d])
    then have "format_signal_summary F sig
                 = head_open @ pair @ ''** BUY'' @ summary_lines F sig"
      by (simp only: format_signal_summary_split [OF assms(4)] append_assoc)
    moreover have "upper ''** BUY'' = ''** BUY''"
      using tail_buy_plain by (elim conjE)
    ultimately have u: "upper (format_signal_summary F sig) = head_open @ pair @ ?r"
      by (simp only: upper_append up ho(3))
    have "free currency_codes ''** BUY''" "free currency_codes ?t"
      using tail_buy_plain free_forbidden_parts [OF ft] by simp_all
    then have fr: "free currency_codes ?r"
      by (rule free_append [OF words_ok_codes _ _ disjI2 [OF ot]])
    have "opens_plain ''** BUY''"
      using tail_buy_plain by simp
    then have orr: "opens_plain ?r"
      by (rule opens_plain_append) simp
    have "extract_instrument (head_open @ pair @ ?r) = Some pair"
      by (rule extract_instrument_summary [OF assms(6) fr orr])
    moreover
    have "str_in ''BUY'' ((head_open @ pair @ ''** '') @ ''BUY'' @ ?t)"
      by (rule str_in_middle)
    then have "str_in ''BUY'' (head_open @ pair @ ?r)"
      by simp
    then have "extract_direction (head_open @ pair @ ?r) = Some ''BUY''"
      by (rule extract_direction_buy)
    ultimately show ?thesis
      by (simp only: u assms(5) d simp_thms)
  next
    assume d: "sig_direction sig = Some ''SELL''"
    let ?r = "''** SELL'' @ ?t"
    have "summary_head sig = head_open @ pair @ ''** SELL''"
      by (simp add: summary_head_eq [OF assms(5) d])
    then have "format_signal_summary F sig
                 = head_open @ pair @ ''** SELL'' @ summary_lines F sig"
      by (simp only: format_signal_summary_split [OF assms(4)] append_assoc)
    moreover have "upper ''** SELL'' = ''** SELL''"
      using tail_sell_plain by (elim conjE)
    ultimately have u: "upper (format_signal_summary F sig) = head_open @ pair @ ?r"
      by (simp only: upper_append up ho(3))
    have "free forbidden ''** SELL''"
      using tail_sell_plain by simp
    then have "free forbidden ?r"
      using ft by (rule free_append [OF words_ok_forbidden _ _ disjI2 [OF ot]])
    then have fr: "free currency_codes ?r" and br: "free buy_words ?r"
      using free_forbidden_parts by blast+
    have "opens_plain ''** SELL''"
      using tail_sell_plain by simp
    then have orr: "opens_plain ?r"
      by (rule opens_plain_append) simp
    have i: "extract_instrument (head_open @ pair @ ?r) = Some pair"
      by (rule extract_instrument_summary [OF assms(6) fr orr])
    have "free buy_words (pair @ ?r)"
      by (rule free_append [OF words_ok_buy bp br disjI2 [OF orr]])
    with free_forbidden_parts [OF ho(1)] have "free buy_words (head_open @ pair @ ?r)"
      by (intro free_append [OF words_ok_buy _ _ disjI1 [OF ho(2)]]) simp_all
    moreover
    have "str_in ''SELL'' ((head_open @ pair @ ''** '') @ ''SELL'' @ ?t)"
      by (rule str_in_middle)
    then have "str_in ''SELL'' (head_open @ pair @ ?r)"
      by simp
    ultimately have "extract_direction (head_open @ pair @ ?r) = Some ''SELL''"
      by (intro extract_direction_sell)
    with i show ?thesis
      by (simp only: u assms(5) d simp_thms)
  qed
qed

theorem summary_round_trip_witness:
  "(\<forall>x. float_text (fstr exact_floats x)) \<and> (\<forall>x. float_text (fmt1 exact_floats x))
   \<and> extract_trading_signal_f exact_floats ''EURUSD BUY 1.5 SL 1 TP 2'' = Inr py_signal_eurusd
   \<and> sig_is_valid_signal py_signal_eurusd
   \<and> sig_instrument py_signal_eurusd = Some ''EURUSD''
   \<and> ''EURUSD'' \<in> set forex_pairs
   \<and> extract_instrument (upper (format_signal_summary exact_floats py_signal_eurusd))
       = Some ''EURUSD''
   \<and> extract_direction (upper (format_signal_summary exact_floats py_signal_eurusd))
       = Some ''BUY''"
proof -
  have t: "\<forall>x. float_text (fstr exact_floats x)" "\<forall>x. float_text (fmt1 exact_floats x)"
    using exact_floats_text by simp_all
  have v: "sig_is_valid_signal py_signal_eurusd"
    by (simp add: py_signal_eurusd_def)
  have i: "sig_instrument py_signal_eurusd = Some ''EURUSD''"
    by (simp add: py_signal_eurusd_def)
  have d: "sig_direction py_signal_eurusd = Some ''BUY''"
    by (simp add: py_signal_eurusd_def)
  have m: "''EURUSD'' \<in> set forex_pairs"
    by (simp add: forex_pairs_def)
  from summary_round_trip [OF t eval_f_eurusd v i m] i d
  have "extract_instrument (upper (format_signal_summary exact_floats py_signal_eurusd))
          = Some ''EURUSD''"
    and "extract_direction (upper (format_signal_summary exact_floats py_signal_eurusd))
          = Some ''BUY''"
    by simp_all
  with t eval_f_eurusd v i m show ?thesis
    by blast
qed

end
